theory Spec2Isabelle
  imports Main "HOL-Library.Sublist"
begin

section \<open>Library functions of Go used by the executor\<close>

text \<open>
  The Docker executor (\<^verbatim>\<open>executors/docker/executor_docker.go\<close>) works on Go strings
  with a handful of functions of the packages \<^verbatim>\<open>strings\<close> and \<^verbatim>\<open>path\<close>. They are
  written out here as the Go library computes them; a Go string is a \<^typ>\<open>string\<close>.
\<close>

definition strings_ContainsAny :: "string \<Rightarrow> string \<Rightarrow> bool" where
  "strings_ContainsAny s chars = (set s \<inter> set chars \<noteq> {})"

fun strings_Contains :: "string \<Rightarrow> string \<Rightarrow> bool" where
  "strings_Contains [] substr = (substr = [])"
| "strings_Contains (c # cs) substr = (prefix substr (c # cs) \<or> strings_Contains cs substr)"

text \<open>\<^verbatim>\<open>strings.SplitN(s, sep, 2)\<close> for a separator of one character.\<close>

definition strings_SplitN2 :: "string \<Rightarrow> char \<Rightarrow> string list" where
  "strings_SplitN2 s sep =
     (if sep \<in> set s
      then [takeWhile (\<lambda>c. c \<noteq> sep) s, tl (dropWhile (\<lambda>c. c \<noteq> sep) s)]
      else [s])"

text \<open>\<^verbatim>\<open>strings.Split(s, sep)\<close> for a separator of one character.\<close>

fun strings_Split :: "string \<Rightarrow> char \<Rightarrow> string list" where
  "strings_Split [] sep = [[]]"
| "strings_Split (c # cs) sep =
     (if c = sep then [] # strings_Split cs sep
      else (case strings_Split cs sep of
              [] \<Rightarrow> [[c]]
            | x # xs \<Rightarrow> (c # x) # xs))"

text \<open>\<^verbatim>\<open>strings.Replace(s, "/", new, -1)\<close>: every slash is replaced.\<close>

definition replace_slash :: "string \<Rightarrow> string \<Rightarrow> string" where
  "replace_slash s new = concat (map (\<lambda>c. if c = CHR ''/'' then new else [c]) s)"

text \<open>\<^verbatim>\<open>strconv.Itoa\<close>: the decimal digits of an integer.\<close>

fun digits :: "nat \<Rightarrow> string" where
  "digits n =
     (if n < 10 then [''0123456789'' ! n]
      else digits (n div 10) @ [''0123456789'' ! (n mod 10)])"

declare digits.simps [simp del]

definition strconv_Itoa :: "int \<Rightarrow> string" where
  "strconv_Itoa i = (if i < 0 then ''-'' @ digits (nat (- i)) else digits (nat i))"

subsection \<open>Package path\<close>

definition path_IsAbs :: "string \<Rightarrow> bool" where
  "path_IsAbs p = (case p of [] \<Rightarrow> False | c # _ \<Rightarrow> c = CHR ''/'')"

text \<open>
  \<^verbatim>\<open>path.Clean\<close> scans the path once and writes into a buffer \<open>out\<close>; \<open>dotdot\<close> is
  the length of the prefix of \<open>out\<close> that a \<^verbatim>\<open>..\<close> element must not remove. Backing up
  over the last element (\<^verbatim>\<open>out.w--\<close>, then down to the previous slash) is
  \<open>lazybuf_back\<close>, called with \<open>w = length out - 1\<close>.
\<close>

fun lazybuf_back :: "string \<Rightarrow> nat \<Rightarrow> nat \<Rightarrow> string" where
  "lazybuf_back b 0 dotdot = []"
| "lazybuf_back b (Suc w) dotdot =
     (if Suc w > dotdot \<and> b ! Suc w \<noteq> CHR ''/'' then lazybuf_back b w dotdot
      else take (Suc w) b)"

definition sep_needed :: "bool \<Rightarrow> string \<Rightarrow> bool" where
  "sep_needed rooted out = ((rooted \<and> length out \<noteq> 1) \<or> (\<not> rooted \<and> length out \<noteq> 0))"

function Clean_loop :: "bool \<Rightarrow> string \<Rightarrow> string \<Rightarrow> nat \<Rightarrow> string" where
  "Clean_loop rooted [] out dotdot = out"
| "Clean_loop rooted (c # cs) out dotdot =
     (if c = CHR ''/'' then Clean_loop rooted cs out dotdot
      else if c = CHR ''.'' \<and> (cs = [] \<or> hd cs = CHR ''/'') then Clean_loop rooted cs out dotdot
      else if c = CHR ''.'' \<and> cs \<noteq> [] \<and> hd cs = CHR ''.'' \<and> (tl cs = [] \<or> hd (tl cs) = CHR ''/'') then
        (if length out > dotdot then
           Clean_loop rooted (tl cs) (lazybuf_back out (length out - 1) dotdot) dotdot
         else if \<not> rooted then
           (let out' = (if length out > 0 then out @ ''/'' else out) @ ''..''
            in Clean_loop rooted (tl cs) out' (length out'))
         else Clean_loop rooted (tl cs) out dotdot)
      else
        (let out' = (if sep_needed rooted out then out @ ''/'' else out)
         in Clean_loop rooted (dropWhile (\<lambda>x. x \<noteq> CHR ''/'') cs)
              (out' @ c # takeWhile (\<lambda>x. x \<noteq> CHR ''/'') cs) dotdot))"
  by pat_completeness auto
termination
  by (relation "measure (\<lambda>(r, p, out, d). length p)")
     (auto simp: less_Suc_eq_le length_dropWhile_le intro: le_trans[OF _ le_SucI])

definition path_Clean :: "string \<Rightarrow> string" where
  "path_Clean p =
     (if p = [] then ''.''
      else let rooted = (hd p = CHR ''/'');
               out = (if rooted then Clean_loop True (tl p) ''/'' 1
                      else Clean_loop False p [] 0)
           in if out = [] then ''.'' else out)"

text \<open>\<^verbatim>\<open>path.Split\<close>'s first result: the path up to and with its last slash.\<close>

definition Split_dir :: "string \<Rightarrow> string" where
  "Split_dir p = rev (dropWhile (\<lambda>c. c \<noteq> CHR ''/'') (rev p))"

definition path_Dir :: "string \<Rightarrow> string" where
  "path_Dir p = path_Clean (Split_dir p)"

text \<open>\<^verbatim>\<open>path.Join\<close> of two elements.\<close>

definition path_Join :: "string \<Rightarrow> string \<Rightarrow> string" where
  "path_Join a b =
     (if a = [] \<and> b = [] then []
      else if a = [] then path_Clean b
      else path_Clean (a @ ''/'' @ b))"

subsection \<open>The directory of a path is shorter than the path\<close>

text \<open>
  The loop of \<open>isParentOf\<close> below walks from a directory to its parents with
  \<^verbatim>\<open>path.Dir\<close> until it reaches \<^verbatim>\<open>/\<close> or \<^verbatim>\<open>.\<close>; it ends because \<^verbatim>\<open>path.Dir\<close>
  returns one of the two or a shorter path. The proof follows the scan of
  \<^verbatim>\<open>path.Clean\<close>: the buffer never holds more than was read, a separator it is about
  to write counted in (\<open>debt\<close>).
\<close>

lemma length_lazybuf_back: "length (lazybuf_back b w dotdot) \<le> w"
  by (induction w) auto

lemma dropWhile_slash_hd:
  "dropWhile (\<lambda>x. x \<noteq> CHR ''/'') cs = [] \<or> hd (dropWhile (\<lambda>x. x \<noteq> CHR ''/'') cs) = CHR ''/''"
  using hd_dropWhile[of "\<lambda>x. x \<noteq> CHR ''/''" cs] by auto

lemma length_take_drop_slash:
  "length (takeWhile (\<lambda>x. x \<noteq> CHR ''/'') cs) + length (dropWhile (\<lambda>x. x \<noteq> CHR ''/'') cs) = length cs"
  by (metis length_append takeWhile_dropWhile_id)

lemma last_dropWhile_slash:
  "cs \<noteq> [] \<Longrightarrow> last cs = CHR ''/'' \<Longrightarrow>
   dropWhile (\<lambda>x. x \<noteq> CHR ''/'') cs \<noteq> [] \<and> last (dropWhile (\<lambda>x. x \<noteq> CHR ''/'') cs) = CHR ''/''"
  by (induction cs) (auto split: if_splits)

definition debt :: "bool \<Rightarrow> string \<Rightarrow> string \<Rightarrow> nat" where
  "debt rooted p out = (if p \<noteq> [] \<and> hd p \<noteq> CHR ''/'' \<and> sep_needed rooted out then 1 else 0)"

lemma Clean_loop_shorter:
  "p \<noteq> [] \<Longrightarrow> last p = CHR ''/'' \<Longrightarrow> length out + debt rooted p out \<le> k \<Longrightarrow>
   length (Clean_loop rooted p out dotdot) < k + length p"
proof (induction rooted p out dotdot arbitrary: k rule: Clean_loop.induct)
  case (1 rooted out dotdot)
  then show ?case by simp
next
  case (2 rooted c cs out dotdot)
  let ?seg = "takeWhile (\<lambda>x. x \<noteq> CHR ''/'') cs"
  let ?rest = "dropWhile (\<lambda>x. x \<noteq> CHR ''/'') cs"
  from "2.prems" have lastp: "last (c # cs) = CHR ''/''"
    and bound: "length out + debt rooted (c # cs) out \<le> k"
    by simp_all
  consider (slash) "c = CHR ''/''"
    | (dot) "c \<noteq> CHR ''/''" "c = CHR ''.''" "cs = [] \<or> hd cs = CHR ''/''"
    | (dotdot) "c \<noteq> CHR ''/''" "\<not> (c = CHR ''.'' \<and> (cs = [] \<or> hd cs = CHR ''/''))"
        "c = CHR ''.'' \<and> cs \<noteq> [] \<and> hd cs = CHR ''.'' \<and> (tl cs = [] \<or> hd (tl cs) = CHR ''/'')"
    | (other) "c \<noteq> CHR ''/''" "\<not> (c = CHR ''.'' \<and> (cs = [] \<or> hd cs = CHR ''/''))"
        "\<not> (c = CHR ''.'' \<and> cs \<noteq> [] \<and> hd cs = CHR ''.'' \<and> (tl cs = [] \<or> hd (tl cs) = CHR ''/''))"
    by blast
  then show ?case
  proof cases
    case slash
    show ?thesis
    proof (cases "cs = []")
      case True
      with slash bound show ?thesis by (simp add: debt_def)
    next
      case False
      with lastp have l: "last cs = CHR ''/''" by simp
      from bound slash have "length out + debt rooted cs out \<le> Suc k" by (simp add: debt_def)
      from "2.IH"(1)[OF slash False l this] slash show ?thesis by simp
    qed
  next
    case dot
    with lastp have ne: "cs \<noteq> []" by auto
    with dot have h: "hd cs = CHR ''/''" by simp
    from lastp ne have l: "last cs = CHR ''/''" by simp
    from bound ne h have "length out + debt rooted cs out \<le> k" by (simp add: debt_def)
    from "2.IH"(2)[OF dot(1) _ ne l this] dot show ?thesis by simp
  next
    case dotdot
    then obtain rest where cs: "cs = CHR ''.'' # rest" by (cases cs) auto
    with lastp dotdot have ne: "rest \<noteq> []" by auto
    with dotdot cs have h: "hd rest = CHR ''/''" by simp
    from lastp cs ne have l: "last rest = CHR ''/''" by simp
    have tl: "tl cs = rest" using cs by simp
    show ?thesis
    proof (cases "length out > dotdot")
      case True
      have "length (lazybuf_back out (length out - 1) dotdot) \<le> length out"
        using length_lazybuf_back[of out "length out - 1" dotdot] by simp
      with bound ne h
      have b: "length (lazybuf_back out (length out - 1) dotdot)
               + debt rooted (tl cs) (lazybuf_back out (length out - 1) dotdot) \<le> k"
        by (simp add: debt_def tl)
      from "2.IH"(3)[OF dotdot(1) dotdot(2) dotdot(3) True _ _ b] ne l tl dotdot True cs
      show ?thesis by simp
    next
      case False
      show ?thesis
      proof (cases rooted)
        case True
        from bound ne h have b: "length out + debt rooted (tl cs) out \<le> k"
          by (simp add: debt_def tl)
        from "2.IH"(5)[OF dotdot(1) dotdot(2) dotdot(3) False _ _ _ b] True ne l tl dotdot False cs
        show ?thesis by simp
      next
        case nr: False
        define out' where "out' = (if length out > 0 then out @ ''/'' else out) @ ''..''"
        have "length out' = length out + debt rooted (c # cs) out + 2"
          using dotdot nr by (simp add: out'_def debt_def sep_needed_def)
        with bound ne h have b: "length out' + debt rooted (tl cs) out' \<le> k + 2"
          by (simp add: debt_def tl)
        from "2.IH"(4)[OF dotdot(1) dotdot(2) dotdot(3) False nr out'_def _ _ b]
          nr ne l tl dotdot False cs
        show ?thesis by (simp add: out'_def Let_def)
      qed
    qed
  next
    case other
    from lastp other have ne: "cs \<noteq> []" by auto
    with lastp have lcs: "last cs = CHR ''/''" by simp
    from last_dropWhile_slash[OF ne lcs] have rne: "?rest \<noteq> []" and rl: "last ?rest = CHR ''/''"
      by simp_all
    have rh: "hd ?rest = CHR ''/''" using dropWhile_slash_hd[of cs] rne by blast
    define out' where "out' = (if sep_needed rooted out then out @ ''/'' else out)"
    have "length (out' @ c # ?seg) = length out + debt rooted (c # cs) out + 1 + length ?seg"
      using other by (simp add: out'_def debt_def)
    with bound rne rh
    have b: "length (out' @ c # ?seg) + debt rooted ?rest (out' @ c # ?seg) \<le> k + 1 + length ?seg"
      by (simp add: debt_def)
    have eq: "Clean_loop rooted (c # cs) out dotdot = Clean_loop rooted ?rest (out' @ c # ?seg) dotdot"
      unfolding out'_def by (subst Clean_loop.simps) (simp only: other if_False Let_def)
    from "2.IH"(6)[OF other(1) other(2) other(3) out'_def rne rl b] length_take_drop_slash[of cs]
    show ?thesis unfolding eq by simp
  qed
qed

lemma Clean_trailing_slash:
  assumes "q \<noteq> []" and "last q = CHR ''/''"
  shows "path_Clean q = ''/'' \<or> path_Clean q = ''.'' \<or> length (path_Clean q) < length q"
proof (cases "hd q = CHR ''/''")
  case True
  show ?thesis
  proof (cases "tl q = []")
    case t: True
    with True assms show ?thesis by (cases q) (simp_all add: path_Clean_def)
  next
    case False
    with assms have "last (tl q) = CHR ''/''" by (cases q) (auto split: if_splits)
    from Clean_loop_shorter[OF False this, of "''/''" True 1 1] assms
    have "length (Clean_loop True (tl q) ''/'' 1) < length q"
      by (cases q) (simp_all add: debt_def sep_needed_def)
    with True assms show ?thesis by (auto simp: path_Clean_def Let_def)
  qed
next
  case False
  from Clean_loop_shorter[OF assms, of "[]" False 0 0]
  have "length (Clean_loop False q [] 0) < length q" by (simp add: debt_def sep_needed_def)
  with False assms show ?thesis by (auto simp: path_Clean_def Let_def)
qed

lemma Dir_shorter: "path_Dir d = ''/'' \<or> path_Dir d = ''.'' \<or> length (path_Dir d) < length d"
proof (cases "Split_dir d = []")
  case True
  then show ?thesis by (simp add: path_Dir_def path_Clean_def)
next
  case False
  have len: "length (Split_dir d) \<le> length d"
    using length_dropWhile_le[of "\<lambda>c. c \<noteq> CHR ''/''" "rev d"] by (simp add: Split_dir_def)
  have "hd (dropWhile (\<lambda>c. c \<noteq> CHR ''/'') (rev d)) = CHR ''/''"
    using False hd_dropWhile[of "\<lambda>c. c \<noteq> CHR ''/''" "rev d"] by (auto simp: Split_dir_def)
  then have "last (Split_dir d) = CHR ''/''"
    using False by (simp add: Split_dir_def last_rev)
  from Clean_trailing_slash[OF False this] len show ?thesis by (auto simp: path_Dir_def)
qed


section \<open>Data of the executor\<close>

subsection \<open>Errors\<close>

text \<open>
  A Go \<^verbatim>\<open>error\<close> is \<open>None\<close> for \<^verbatim>\<open>nil\<close> and \<open>Some\<close> of one of these values:
  a message (\<^verbatim>\<open>errors.New\<close>, \<^verbatim>\<open>fmt.Errorf\<close>), an error returned by the runtime
  client (with what \<^verbatim>\<open>docker_helpers.IsErrNotFound\<close> says of it, and its message),
  a \<^verbatim>\<open>common.BuildError\<close> around another error, or a run-time panic (a field read
  or method call through \<^verbatim>\<open>nil\<close>, an index out of range), which the model returns
  as a value where the Go program stops.
\<close>

datatype error =
    ErrorString string
  | ClientError bool string
  | BuildError error
  | Panic string

fun Error :: "error \<Rightarrow> string" where
  "Error (ErrorString m) = m"
| "Error (ClientError nf m) = m"
| "Error (BuildError inner) = Error inner"
| "Error (Panic m) = m"

fun IsErrNotFound :: "error \<Rightarrow> bool" where
  "IsErrNotFound (ClientError nf m) = nf"
| "IsErrNotFound e = False"

subsection \<open>Values exchanged with the runtime client\<close>

record Info =
  Architecture :: string

record ImageInspect =
  Image_ID :: string

text \<open>\<^verbatim>\<open>types.ContainerJSON\<close>: the ID, the keys of \<^verbatim>\<open>Config.Volumes\<close>, and the state.\<close>

record ContainerJSON =
  JSON_ID :: string
  JSON_Volumes :: "string set"
  JSON_Running :: bool
  JSON_ExitCode :: int

record Container =
  ID :: string
  Names :: "string list"

text \<open>A network the daemon knows, with the names of the endpoints plugged into it.\<close>

record NetworkResource =
  Network_ID :: string
  Network_Name :: string
  Network_Containers :: "string list"

record AuthConfig =
  Username :: string
  Password :: string
  ServerAddress :: string

record DeviceMapping =
  PathOnHost :: string
  PathInContainer :: string
  CgroupPermissions :: string

record Config =
  Config_Image :: string
  Config_Hostname :: string
  Config_Cmd :: "string list"
  Config_Volumes :: "string set"
  Config_Labels :: "string \<rightharpoonup> string"
  Config_Env :: "string list"
  Config_Tty :: bool
  Config_AttachStdin :: bool
  Config_AttachStdout :: bool
  Config_AttachStderr :: bool
  Config_OpenStdin :: bool
  Config_StdinOnce :: bool

record HostConfig =
  Host_CpusetCpus :: string
  Host_Devices :: "DeviceMapping list"
  Host_DNS :: "string list"
  Host_DNSSearch :: "string list"
  Host_Privileged :: bool
  Host_CapAdd :: "string list"
  Host_CapDrop :: "string list"
  Host_SecurityOpt :: "string list"
  Host_RestartPolicy :: string
  Host_ExtraHosts :: "string list"
  Host_NetworkMode :: string
  Host_Links :: "string list"
  Host_Binds :: "string list"
  Host_VolumeDriver :: string
  Host_VolumesFrom :: "string list"
  Host_LogConfig_Type :: string

text \<open>The zero values of the two structs: a Go composite literal sets the other fields.\<close>

definition zero_Config :: Config where
  "zero_Config = \<lparr>Config_Image = [], Config_Hostname = [], Config_Cmd = [], Config_Volumes = {},
     Config_Labels = Map.empty, Config_Env = [], Config_Tty = False, Config_AttachStdin = False,
     Config_AttachStdout = False, Config_AttachStderr = False, Config_OpenStdin = False,
     Config_StdinOnce = False\<rparr>"

definition zero_HostConfig :: HostConfig where
  "zero_HostConfig = \<lparr>Host_CpusetCpus = [], Host_Devices = [], Host_DNS = [], Host_DNSSearch = [],
     Host_Privileged = False, Host_CapAdd = [], Host_CapDrop = [], Host_SecurityOpt = [],
     Host_RestartPolicy = [], Host_ExtraHosts = [], Host_NetworkMode = [], Host_Links = [],
     Host_Binds = [], Host_VolumeDriver = [], Host_VolumesFrom = [], Host_LogConfig_Type = []\<rparr>"

definition neverRestartPolicy :: string where
  "neverRestartPolicy = ''no''"

subsection \<open>The runtime client\<close>

text \<open>
  The executor reaches the daemon only through the methods of \<^verbatim>\<open>docker_helpers.Client\<close>.
  Every call it makes is appended to a trace; \<^verbatim>\<open>time.Sleep(time.Second)\<close> is in the
  trace too, as \<open>Call_Sleep\<close>.
\<close>

datatype call =
    Call_Info
  | Call_ImageInspectWithRaw string
  | Call_ImagePullBlocking string string
  | Call_ImageImportBlocking string string string
  | Call_ContainerCreate Config HostConfig string
  | Call_ContainerStart string
  | Call_ContainerInspect string
  | Call_ContainerLogs string
  | Call_ContainerRemove string
  | Call_NetworkList
  | Call_NetworkDisconnect string string
  | Call_Sleep
  | Call_Close

text \<open>
  The client is not part of these sources. It is a parameter: what each method answers,
  given the trace of the calls made before it and its arguments. The daemon's answers
  may so depend on everything the executor did and on how long it waited, and a
  statement about every \<open>Client\<close> is one about every such daemon. \<open>New\<close> is the
  error of \<^verbatim>\<open>docker_helpers.New\<close>, which connects the client.
  \<^verbatim>\<open>ImagePullBlocking\<close> takes the reference and \<^verbatim>\<open>options.RegistryAuth\<close>,
  \<^verbatim>\<open>ImageImportBlocking\<close> the source data, the reference and \<^verbatim>\<open>options.Tag\<close>,
  \<^verbatim>\<open>ContainerCreate\<close> answers the ID of the response and the error.
\<close>

record Client =
  New :: "error option"
  Info :: "call list \<Rightarrow> Info \<times> error option"
  ImageInspectWithRaw :: "call list \<Rightarrow> string \<Rightarrow> ImageInspect \<times> error option"
  ImagePullBlocking :: "call list \<Rightarrow> string \<Rightarrow> string \<Rightarrow> error option"
  ImageImportBlocking :: "call list \<Rightarrow> string \<Rightarrow> string \<Rightarrow> string \<Rightarrow> error option"
  ContainerCreate :: "call list \<Rightarrow> Config \<Rightarrow> HostConfig \<Rightarrow> string \<Rightarrow> string \<times> error option"
  ContainerStart :: "call list \<Rightarrow> string \<Rightarrow> error option"
  ContainerInspect :: "call list \<Rightarrow> string \<Rightarrow> ContainerJSON \<times> error option"
  ContainerLogs :: "call list \<Rightarrow> string \<Rightarrow> string \<times> error option"
  ContainerRemove :: "call list \<Rightarrow> string \<Rightarrow> error option"
  NetworkList :: "call list \<Rightarrow> NetworkResource list \<times> error option"
  NetworkDisconnect :: "call list \<Rightarrow> string \<Rightarrow> string \<Rightarrow> error option"

subsection \<open>Configuration, build and libraries\<close>

datatype PullPolicy = PullPolicyAlways | PullPolicyNever | PullPolicyIfNotPresent

datatype GitStrategy = GitClone | GitFetch

text \<open>
  \<^verbatim>\<open>common.DockerConfig\<close>, the fields the executor reads. \<open>Docker_PullPolicy_Get\<close>
  is the result of \<^verbatim>\<open>PullPolicy.Get()\<close>: the policy, or the error for a value that
  names none.
\<close>

record DockerConfig =
  Docker_Hostname :: string
  Docker_Image :: string
  Docker_CPUSetCPUs :: string
  Docker_DNS :: "string list"
  Docker_DNSSearch :: "string list"
  Docker_Privileged :: bool
  Docker_CapAdd :: "string list"
  Docker_CapDrop :: "string list"
  Docker_SecurityOpt :: "string list"
  Docker_Devices :: "string list"
  Docker_DisableCache :: bool
  Docker_Volumes :: "string list"
  Docker_VolumeDriver :: string
  Docker_CacheDir :: string
  Docker_ExtraHosts :: "string list"
  Docker_VolumesFrom :: "string list"
  Docker_NetworkMode :: string
  Docker_Links :: "string list"
  Docker_Services :: "string list"
  Docker_WaitForServicesTimeout :: int
  Docker_AllowedImages :: "string list"
  Docker_AllowedServices :: "string list"
  Docker_PullPolicy_Get :: "error + PullPolicy"

record RunnerConfig =
  BuildsDir :: string
  Docker :: "DockerConfig option"

record Credentials =
  Credentials_Type :: string
  Credentials_URL :: string
  Credentials_Username :: string
  Credentials_Password :: string

record dockerOptions =
  options_Image :: string
  options_Services :: "string list"

text \<open>
  \<^verbatim>\<open>common.Build\<close>, as the executor reads it: fields, and the results of its methods
  (\<^verbatim>\<open>ProjectUniqueName()\<close>, \<^verbatim>\<open>FullProjectDir()\<close>, \<^verbatim>\<open>GetGitStrategy()\<close>,
  \<^verbatim>\<open>GetDockerAuthConfig()\<close>, \<^verbatim>\<open>GetAllVariables()\<close> with \<^verbatim>\<open>StringList()\<close>,
  \<^verbatim>\<open>PublicOrInternal().StringList()\<close> and \<^verbatim>\<open>ExpandValue\<close>,
  \<^verbatim>\<open>Runner.ShortDescription()\<close>, \<^verbatim>\<open>Options.Decode\<close>).
\<close>

record Build =
  Build_ID :: int
  Build_Sha :: string
  Build_BeforeSha :: string
  Build_RefName :: string
  Build_ProjectID :: int
  Build_RunnerID :: int
  Build_Runner_ShortDescription :: string
  Build_RootDir :: string
  Build_ProjectUniqueName :: string
  Build_FullProjectDir :: string
  Build_GitStrategy :: GitStrategy
  Build_Credentials :: "Credentials list"
  Build_DockerAuthConfig :: string
  Build_Variables_StringList :: "string list"
  Build_PublicOrInternal_StringList :: "string list"
  Build_ExpandValue :: "string \<Rightarrow> string"
  Build_Options_Decode :: "error + dockerOptions"

record ShellConfiguration =
  Environment :: "string list"
  Command :: string
  Arguments :: "string list"
  PassFile :: bool
  Extension :: string

text \<open>
  Functions and constants of other packages that the executor calls and that are not
  among these sources; each is a parameter.
  \<^item> \<open>md5hex p\<close>: \<^verbatim>\<open>fmt.Sprintf("%x", md5.Sum([]byte(p)))\<close>;
  \<^item> \<open>Match pattern name\<close>: the boolean of \<^verbatim>\<open>filepath.Match\<close>;
  \<^item> \<open>ReferenceRegexp s\<close>: \<^verbatim>\<open>reference.ReferenceRegexp.FindStringSubmatch(s)\<close>,
    \<open>None\<close> when the string does not match the reference grammar, else the three
    groups \<open>match[1]\<close>, \<open>match[2]\<close>, \<open>match[3]\<close> (name, tag, digest);
  \<^item> \<open>Asset\<close>: the embedded assets; \<open>filepath_Abs\<close>, \<open>filepath_ToSlash\<close>,
    \<open>Quote\<close> (the verb \<^verbatim>\<open>%q\<close>) and \<open>GOARCH\<close>: the Go library on the host;
  \<^item> \<open>prebuiltImageName\<close>, \<open>prebuiltImageExtension\<close>, \<open>dockerLabelPrefix\<close>,
    \<open>REVISION\<close>, \<open>DefaultWaitForServicesTimeout\<close>: constants of the repository;
  \<^item> \<open>SplitDockerImageName\<close> (its first result), \<open>ReadAuthConfigsFromReader\<close>,
    \<open>ReadDockerAuthConfigsFromHomeDir\<close> (for the user of the shell),
    \<open>ResolveDockerAuthConfig\<close>, \<open>EncodeAuthConfig\<close>: the helpers of
    \<^verbatim>\<open>helpers/docker\<close> for registry credentials.
\<close>

record Lib =
  md5hex :: "string \<Rightarrow> string"
  Match :: "string \<Rightarrow> string \<Rightarrow> bool"
  ReferenceRegexp :: "string \<Rightarrow> (string \<times> string \<times> string) option"
  Asset :: "string \<Rightarrow> error + string"
  filepath_Abs :: "string \<Rightarrow> error + string"
  filepath_ToSlash :: "string \<Rightarrow> string"
  Quote :: "string \<Rightarrow> string"
  GOARCH :: string
  prebuiltImageName :: string
  prebuiltImageExtension :: string
  dockerLabelPrefix :: string
  REVISION :: string
  DefaultWaitForServicesTimeout :: int
  SplitDockerImageName :: "string \<Rightarrow> string"
  ReadAuthConfigsFromReader :: "string \<Rightarrow> (string \<rightharpoonup> AuthConfig) option"
  ReadDockerAuthConfigsFromHomeDir :: "(string \<rightharpoonup> AuthConfig) option"
  ResolveDockerAuthConfig :: "string \<Rightarrow> (string \<rightharpoonup> AuthConfig) \<Rightarrow> AuthConfig option"
  EncodeAuthConfig :: "AuthConfig \<Rightarrow> string"

text \<open>
  What the methods of the executor read and never write once \<^verbatim>\<open>Prepare\<close> has set
  it: \<^verbatim>\<open>s.Config.Docker\<close>, \<^verbatim>\<open>s.Build\<close>, \<^verbatim>\<open>s.BuildShell\<close>, the daemon behind
  \<^verbatim>\<open>s.client\<close>, and the libraries.
\<close>

record Env =
  Config_Docker :: DockerConfig
  build :: Build
  BuildShell :: ShellConfiguration
  daemon :: Client
  lib :: Lib

subsection \<open>The executor\<close>

text \<open>
  The struct \<^verbatim>\<open>executor\<close>. \<open>client\<close> says whether \<^verbatim>\<open>s.client\<close> is set (not
  \<^verbatim>\<open>nil\<close>); \<open>builds\<close> and \<open>services\<close> hold \<^verbatim>\<open>*types.Container\<close>;
  \<open>DefaultBuildsDir\<close> and \<open>SharedBuildsDir\<close> are the two fields of the embedded
  \<^verbatim>\<open>AbstractExecutor\<close> that \<^verbatim>\<open>prepareBuildsDir\<close> uses. Two more fields are not
  in the struct: \<open>calls\<close>, the trace of the calls to the client so far, and
  \<open>created\<close>, the non-empty IDs that \<^verbatim>\<open>ContainerCreate\<close> has answered so far.
  Output to the build trace and the debug log is left out.
\<close>

record executor =
  client :: bool
  failures :: "string list"
  builds :: "Container list"
  services :: "Container list"
  caches :: "string list"
  options :: dockerOptions
  info :: Info
  binds :: "string list"
  volumesFrom :: "string list"
  devices :: "DeviceMapping list"
  links :: "string list"
  DefaultBuildsDir :: string
  SharedBuildsDir :: bool
  calls :: "call list"
  created :: "string list"

section \<open>Calls to the client\<close>

definition record_call :: "call \<Rightarrow> executor \<Rightarrow> executor" where
  "record_call c s = s\<lparr>calls := calls s @ [c]\<rparr>"

definition client_Info :: "Env \<Rightarrow> executor \<Rightarrow> (Info \<times> error option) \<times> executor" where
  "client_Info e s = (Info (daemon e) (calls s), record_call Call_Info s)"

definition client_ImageInspectWithRaw ::
  "Env \<Rightarrow> string \<Rightarrow> executor \<Rightarrow> (ImageInspect \<times> error option) \<times> executor" where
  "client_ImageInspectWithRaw e imageName s =
     (ImageInspectWithRaw (daemon e) (calls s) imageName,
      record_call (Call_ImageInspectWithRaw imageName) s)"

definition client_ImagePullBlocking ::
  "Env \<Rightarrow> string \<Rightarrow> string \<Rightarrow> executor \<Rightarrow> error option \<times> executor" where
  "client_ImagePullBlocking e ref registryAuth s =
     (ImagePullBlocking (daemon e) (calls s) ref registryAuth,
      record_call (Call_ImagePullBlocking ref registryAuth) s)"

definition client_ImageImportBlocking ::
  "Env \<Rightarrow> string \<Rightarrow> string \<Rightarrow> string \<Rightarrow> executor \<Rightarrow> error option \<times> executor" where
  "client_ImageImportBlocking e source ref tag s =
     (ImageImportBlocking (daemon e) (calls s) source ref tag,
      record_call (Call_ImageImportBlocking source ref tag) s)"

definition client_ContainerCreate ::
  "Env \<Rightarrow> Config \<Rightarrow> HostConfig \<Rightarrow> string \<Rightarrow> executor \<Rightarrow> (string \<times> error option) \<times> executor" where
  "client_ContainerCreate e config hostConfig containerName s =
     (let resp = ContainerCreate (daemon e) (calls s) config hostConfig containerName;
          s1 = record_call (Call_ContainerCreate config hostConfig containerName) s
      in (resp, if fst resp \<noteq> [] then s1\<lparr>created := created s1 @ [fst resp]\<rparr> else s1))"

definition client_ContainerStart :: "Env \<Rightarrow> string \<Rightarrow> executor \<Rightarrow> error option \<times> executor" where
  "client_ContainerStart e cid s =
     (ContainerStart (daemon e) (calls s) cid, record_call (Call_ContainerStart cid) s)"

definition client_ContainerInspect ::
  "Env \<Rightarrow> string \<Rightarrow> executor \<Rightarrow> (ContainerJSON \<times> error option) \<times> executor" where
  "client_ContainerInspect e cid s =
     (ContainerInspect (daemon e) (calls s) cid, record_call (Call_ContainerInspect cid) s)"

definition client_ContainerLogs ::
  "Env \<Rightarrow> string \<Rightarrow> executor \<Rightarrow> (string \<times> error option) \<times> executor" where
  "client_ContainerLogs e cid s =
     (ContainerLogs (daemon e) (calls s) cid, record_call (Call_ContainerLogs cid) s)"

definition client_ContainerRemove :: "Env \<Rightarrow> string \<Rightarrow> executor \<Rightarrow> error option \<times> executor" where
  "client_ContainerRemove e cid s =
     (ContainerRemove (daemon e) (calls s) cid, record_call (Call_ContainerRemove cid) s)"

definition client_NetworkList ::
  "Env \<Rightarrow> executor \<Rightarrow> (NetworkResource list \<times> error option) \<times> executor" where
  "client_NetworkList e s = (NetworkList (daemon e) (calls s), record_call Call_NetworkList s)"

definition client_NetworkDisconnect ::
  "Env \<Rightarrow> string \<Rightarrow> string \<Rightarrow> executor \<Rightarrow> error option \<times> executor" where
  "client_NetworkDisconnect e networkID cid s =
     (NetworkDisconnect (daemon e) (calls s) networkID cid,
      record_call (Call_NetworkDisconnect networkID cid) s)"

definition time_Sleep :: "executor \<Rightarrow> executor" where
  "time_Sleep s = record_call Call_Sleep s"


section \<open>Images\<close>

text \<open>The three sources of registry credentials, and their fixed order.\<close>

definition getUserAuthConfiguration :: "Env \<Rightarrow> string \<Rightarrow> AuthConfig option" where
  "getUserAuthConfiguration e indexName =
     (case ReadAuthConfigsFromReader (lib e) (Build_DockerAuthConfig (build e)) of
        Some authConfigs \<Rightarrow> ResolveDockerAuthConfig (lib e) indexName authConfigs
      | None \<Rightarrow> None)"

definition getBuildAuthConfiguration :: "Env \<Rightarrow> string \<Rightarrow> AuthConfig option" where
  "getBuildAuthConfiguration e indexName =
     (let authConfigs =
            fold (\<lambda>credentials m.
                    if Credentials_Type credentials \<noteq> ''registry'' then m
                    else m(Credentials_URL credentials \<mapsto>
                           \<lparr>Username = Credentials_Username credentials,
                            Password = Credentials_Password credentials,
                            ServerAddress = Credentials_URL credentials\<rparr>))
                 (Build_Credentials (build e)) Map.empty
      in ResolveDockerAuthConfig (lib e) indexName authConfigs)"

definition getHomeDirAuthConfiguration :: "Env \<Rightarrow> string \<Rightarrow> AuthConfig option" where
  "getHomeDirAuthConfiguration e indexName =
     (case ReadDockerAuthConfigsFromHomeDir (lib e) of
        Some authConfigs \<Rightarrow> ResolveDockerAuthConfig (lib e) indexName authConfigs
      | None \<Rightarrow> None)"

definition getAuthConfig :: "Env \<Rightarrow> string \<Rightarrow> AuthConfig option" where
  "getAuthConfig e imageName =
     (let indexName = SplitDockerImageName (lib e) imageName;
          authConfig = getUserAuthConfiguration e indexName;
          authConfig = (if authConfig = None then getHomeDirAuthConfiguration e indexName
                        else authConfig);
          authConfig = (if authConfig = None then getBuildAuthConfiguration e indexName
                        else authConfig)
      in authConfig)"

text \<open>
  \<^verbatim>\<open>pullDockerImage\<close> and \<^verbatim>\<open>getDockerImage\<close> return a pointer to an image and
  an error, and may set both: the result is a pair.
\<close>

definition pullDockerImage ::
  "Env \<Rightarrow> string \<Rightarrow> AuthConfig option \<Rightarrow> executor
   \<Rightarrow> (ImageInspect option \<times> error option) \<times> executor" where
  "pullDockerImage e imageName ac s =
     (let ref = (if \<not> strings_ContainsAny imageName '':@'' then imageName @ '':latest''
                 else imageName);
          registryAuth = (case ac of None \<Rightarrow> [] | Some a \<Rightarrow> EncodeAuthConfig (lib e) a)
      in case client_ImagePullBlocking e ref registryAuth s of
           (Some err, s1) \<Rightarrow>
             if strings_Contains (Error err) ''not found''
             then ((None, Some (BuildError err)), s1)
             else ((None, Some err), s1)
         | (None, s1) \<Rightarrow>
             (case client_ImageInspectWithRaw e imageName s1 of
                ((img, err), s2) \<Rightarrow> ((Some img, err), s2)))"

definition getDockerImage ::
  "Env \<Rightarrow> string \<Rightarrow> executor \<Rightarrow> (ImageInspect option \<times> error option) \<times> executor" where
  "getDockerImage e imageName s =
     (case Docker_PullPolicy_Get (Config_Docker e) of
        Inl err \<Rightarrow> ((None, Some err), s)
      | Inr pullPolicy \<Rightarrow>
          (let authConfig = getAuthConfig e imageName
           in case client_ImageInspectWithRaw e imageName s of
                ((img, err), s1) \<Rightarrow>
                  if pullPolicy = PullPolicyNever then ((Some img, err), s1)
                  else if err = None \<and> Image_ID img = imageName then ((Some img, None), s1)
                  else if err = None \<and> pullPolicy = PullPolicyIfNotPresent
                  then ((Some img, err), s1)
                  else (case pullDockerImage e imageName authConfig s1 of
                          ((newImage, Some err'), s2) \<Rightarrow> ((None, Some err'), s2)
                        | ((newImage, None), s2) \<Rightarrow> ((newImage, None), s2))))"

definition getArchitecture :: "Env \<Rightarrow> executor \<Rightarrow> string" where
  "getArchitecture e s =
     (let architecture = Architecture (info s);
          architecture =
            (if architecture = ''armv6l'' \<or> architecture = ''armv7l'' \<or> architecture = ''aarch64''
             then ''arm''
             else if architecture = ''amd64'' then ''x86_64''
             else architecture)
      in if architecture \<noteq> [] then architecture
         else if GOARCH (lib e) = ''amd64'' then ''x86_64''
         else GOARCH (lib e))"

text \<open>\<^verbatim>\<open>getPrebuiltImage\<close> returns an image or an error, never both.\<close>

definition getPrebuiltImage :: "Env \<Rightarrow> executor \<Rightarrow> (error + ImageInspect) \<times> executor" where
  "getPrebuiltImage e s =
     (let architecture = getArchitecture e s
      in if architecture = [] then (Inl (ErrorString ''unsupported docker architecture''), s)
         else
           (let imageName = prebuiltImageName (lib e) @ '':'' @ architecture @ ''-'' @ REVISION (lib e)
            in case client_ImageInspectWithRaw e imageName s of
                 ((img, None), s1) \<Rightarrow> (Inr img, s1)
               | ((img, Some _), s1) \<Rightarrow>
                   (case Asset (lib e) (''prebuilt-'' @ architecture @ prebuiltImageExtension (lib e)) of
                      Inl err \<Rightarrow>
                        (Inl (ErrorString (''Unsupported architecture: '' @ architecture @ '': ''
                                            @ Quote (lib e) (Error err))), s1)
                    | Inr data \<Rightarrow>
                        (case client_ImageImportBlocking e data (prebuiltImageName (lib e))
                                (architecture @ ''-'' @ REVISION (lib e)) s1 of
                           (Some err, s2) \<Rightarrow>
                             (Inl (ErrorString (''Failed to import image: '' @ Error err)), s2)
                         | (None, s2) \<Rightarrow>
                             (case client_ImageInspectWithRaw e imageName s2 of
                                ((img', Some err), s3) \<Rightarrow> (Inl err, s3)
                              | ((img', None), s3) \<Rightarrow> (Inr img', s3))))))"

section \<open>Removing and waiting for containers\<close>

text \<open>
  \<^verbatim>\<open>disconnectNetwork\<close> returns the error of the last call it made. A network is
  left when one of its endpoints has the name \<open>cid\<close> (the inner loop stops at the
  first).
\<close>

fun disconnectNetworks ::
  "Env \<Rightarrow> string \<Rightarrow> NetworkResource list \<Rightarrow> error option \<Rightarrow> executor \<Rightarrow> error option \<times> executor" where
  "disconnectNetworks e cid [] err s = (err, s)"
| "disconnectNetworks e cid (network # netList) err s =
     (if cid \<in> set (Network_Containers network)
      then (case client_NetworkDisconnect e (Network_ID network) cid s of
              (err', s1) \<Rightarrow> disconnectNetworks e cid netList err' s1)
      else disconnectNetworks e cid netList err s)"

definition disconnectNetwork :: "Env \<Rightarrow> string \<Rightarrow> executor \<Rightarrow> error option \<times> executor" where
  "disconnectNetwork e cid s =
     (case client_NetworkList e s of
        ((netList, Some err), s1) \<Rightarrow> (Some err, s1)
      | ((netList, None), s1) \<Rightarrow> disconnectNetworks e cid netList None s1)"

definition removeContainer :: "Env \<Rightarrow> string \<Rightarrow> executor \<Rightarrow> error option \<times> executor" where
  "removeContainer e cid s =
     (case disconnectNetwork e cid s of
        (_, s1) \<Rightarrow> client_ContainerRemove e cid s1)"

text \<open>
  \<^verbatim>\<open>waitForContainer\<close> polls until the container has stopped, as long as that takes.
  The model runs the loop for at most \<open>fuel\<close> inspections: the result is
  \<open>Some\<close> of the error returned (\<open>Some None\<close> for \<^verbatim>\<open>nil\<close>), or \<open>None\<close> when the
  loop is still running after \<open>fuel\<close> inspections.
\<close>

fun waitForContainer_loop ::
  "nat \<Rightarrow> Env \<Rightarrow> string \<Rightarrow> int \<Rightarrow> executor \<Rightarrow> error option option \<times> executor" where
  "waitForContainer_loop 0 e cid retries s = (None, s)"
| "waitForContainer_loop (Suc fuel) e cid retries s =
     (case client_ContainerInspect e cid s of
        ((container, Some err), s1) \<Rightarrow>
          if IsErrNotFound err then (Some (Some err), s1)
          else if retries > 3 then (Some (Some err), s1)
          else waitForContainer_loop fuel e cid (retries + 1) (time_Sleep s1)
      | ((container, None), s1) \<Rightarrow>
          if JSON_Running container then waitForContainer_loop fuel e cid 0 (time_Sleep s1)
          else if JSON_ExitCode container \<noteq> 0
          then (Some (Some (BuildError
                  (ErrorString (''exit code '' @ strconv_Itoa (JSON_ExitCode container))))), s1)
          else (Some None, s1))"

definition waitForContainer ::
  "nat \<Rightarrow> Env \<Rightarrow> string \<Rightarrow> executor \<Rightarrow> error option option \<times> executor" where
  "waitForContainer fuel e cid s = waitForContainer_loop fuel e cid 0 s"


section \<open>Volumes\<close>

definition getAbsoluteContainerPath :: "Env \<Rightarrow> string \<Rightarrow> string" where
  "getAbsoluteContainerPath e dir =
     (if path_IsAbs dir then dir else path_Join (Build_FullProjectDir (build e)) dir)"

definition addHostVolume :: "Env \<Rightarrow> string \<Rightarrow> string \<Rightarrow> executor \<Rightarrow> error option \<times> executor" where
  "addHostVolume e hostPath containerPath s =
     (let containerPath = getAbsoluteContainerPath e containerPath
      in (None, s\<lparr>binds := binds s @ [hostPath @ '':'' @ containerPath]\<rparr>))"

definition getLabels :: "Env \<Rightarrow> string \<Rightarrow> string list \<Rightarrow> (string \<rightharpoonup> string)" where
  "getLabels e containerType otherLabels =
     (let pre = dockerLabelPrefix (lib e);
          labels = [pre @ ''.build.id'' \<mapsto> strconv_Itoa (Build_ID (build e)),
                    pre @ ''.build.sha'' \<mapsto> Build_Sha (build e),
                    pre @ ''.build.before_sha'' \<mapsto> Build_BeforeSha (build e),
                    pre @ ''.build.ref_name'' \<mapsto> Build_RefName (build e),
                    pre @ ''.project.id'' \<mapsto> strconv_Itoa (Build_ProjectID (build e)),
                    pre @ ''.runner.id'' \<mapsto> Build_Runner_ShortDescription (build e),
                    pre @ ''.runner.local_id'' \<mapsto> strconv_Itoa (Build_RunnerID (build e)),
                    pre @ ''.type'' \<mapsto> containerType]
      in fold (\<lambda>label m.
                 (case strings_SplitN2 label (CHR ''='') of
                    [k, v] \<Rightarrow> m(pre @ ''.'' @ k \<mapsto> v)
                  | _ \<Rightarrow> m))
              otherLabels labels)"

text \<open>
  \<^verbatim>\<open>createCacheVolume\<close> returns the ID of the created container, or an error.
  It waits for the container without a deadline: the result is \<open>None\<close> when the wait
  is not over after \<open>fuel\<close> inspections.
\<close>

definition createCacheVolume ::
  "nat \<Rightarrow> Env \<Rightarrow> string \<Rightarrow> string \<Rightarrow> executor \<Rightarrow> ((string \<times> error option) \<times> executor) option" where
  "createCacheVolume fuel e containerName containerPath s =
     (case getPrebuiltImage e s of
        (Inl err, s1) \<Rightarrow> Some (([], Some err), s1)
      | (Inr cacheImage, s1) \<Rightarrow>
          (let config = zero_Config\<lparr>
                 Config_Image := Image_ID cacheImage,
                 Config_Cmd := [''gitlab-runner-cache'', containerPath],
                 Config_Volumes := {containerPath},
                 Config_Labels := getLabels e ''cache'' [''cache.dir='' @ containerPath]\<rparr>;
               hostConfig = zero_HostConfig\<lparr>Host_LogConfig_Type := ''json-file''\<rparr>
           in case client_ContainerCreate e config hostConfig containerName s1 of
                ((respID, Some err), s2) \<Rightarrow>
                  Some (([], Some err),
                        if respID \<noteq> [] then s2\<lparr>failures := failures s2 @ [respID]\<rparr> else s2)
              | ((respID, None), s2) \<Rightarrow>
                  (case client_ContainerStart e respID s2 of
                     (Some err, s3) \<Rightarrow>
                       Some (([], Some err), s3\<lparr>failures := failures s3 @ [respID]\<rparr>)
                   | (None, s3) \<Rightarrow>
                       (case waitForContainer fuel e respID s3 of
                          (None, s4) \<Rightarrow> None
                        | (Some (Some err), s4) \<Rightarrow>
                            Some (([], Some err), s4\<lparr>failures := failures s4 @ [respID]\<rparr>)
                        | (Some None, s4) \<Rightarrow> Some ((respID, None), s4)))))"

definition addCacheVolume ::
  "nat \<Rightarrow> Env \<Rightarrow> string \<Rightarrow> executor \<Rightarrow> (error option \<times> executor) option" where
  "addCacheVolume fuel e containerPath s =
     (let containerPath = getAbsoluteContainerPath e containerPath
      in if Docker_DisableCache (Config_Docker e) then Some (None, s)
         else
           (let hash = md5hex (lib e) containerPath
            in if Docker_CacheDir (Config_Docker e) \<noteq> [] then
                 (case filepath_Abs (lib e)
                         (Docker_CacheDir (Config_Docker e) @ ''/''
                          @ Build_ProjectUniqueName (build e) @ ''/'' @ hash) of
                    Inl err \<Rightarrow> Some (Some err, s)
                  | Inr hostPath \<Rightarrow>
                      Some (None, s\<lparr>binds := binds s
                                     @ [filepath_ToSlash (lib e) hostPath @ '':'' @ containerPath]\<rparr>))
               else
                 (let containerName = Build_ProjectUniqueName (build e) @ ''-cache-'' @ hash
                  in case client_ContainerInspect e containerName s of
                       ((inspected, ierr), s1) \<Rightarrow>
                         (let (containerID, s2) =
                                (if ierr = None then
                                   (if containerPath \<in> JSON_Volumes inspected
                                    then ([], snd (removeContainer e (JSON_ID inspected) s1))
                                    else (JSON_ID inspected, s1))
                                 else ([], s1))
                          in if containerID = [] then
                               (case createCacheVolume fuel e containerName containerPath s2 of
                                  None \<Rightarrow> None
                                | Some ((newID, Some err), s3) \<Rightarrow> Some (Some err, s3)
                                | Some ((newID, None), s3) \<Rightarrow>
                                    Some (None, s3\<lparr>volumesFrom := volumesFrom s3 @ [newID]\<rparr>))
                             else Some (None, s2\<lparr>volumesFrom := volumesFrom s2 @ [containerID]\<rparr>)))))"

definition addVolume :: "nat \<Rightarrow> Env \<Rightarrow> string \<Rightarrow> executor \<Rightarrow> (error option \<times> executor) option" where
  "addVolume fuel e volume s =
     (case strings_SplitN2 volume (CHR '':'') of
        [hostPath, containerPath] \<Rightarrow> Some (addHostVolume e hostPath containerPath s)
      | [containerPath] \<Rightarrow> addCacheVolume fuel e containerPath s
      | _ \<Rightarrow> Some (None, s))"

function isParentOf :: "string \<Rightarrow> string \<Rightarrow> bool" where
  "isParentOf parent dir =
     (if dir \<noteq> ''/'' \<and> dir \<noteq> ''.'' then
        (if dir = parent then True else isParentOf parent (path_Dir dir))
      else False)"
  by pat_completeness auto
termination
proof (relation "measure (\<lambda>(parent, dir). if dir = ''/'' \<or> dir = ''.'' then 0 else Suc (length dir))")
  show "wf (measure (\<lambda>(parent, dir). if dir = ''/'' \<or> dir = ''.'' then 0 else Suc (length dir)))"
    by simp
next
  fix parent dir :: string
  assume "dir \<noteq> ''/'' \<and> dir \<noteq> ''.''" "dir \<noteq> parent"
  then show "((parent, path_Dir dir), (parent, dir))
             \<in> measure (\<lambda>(parent, dir). if dir = ''/'' \<or> dir = ''.'' then 0 else Suc (length dir))"
    using Dir_shorter[of dir] by auto
qed

fun isHostMountedVolume :: "string \<Rightarrow> string list \<Rightarrow> bool" where
  "isHostMountedVolume dir [] = False"
| "isHostMountedVolume dir (volume # volumes) =
     (let hostVolume = strings_Split volume (CHR '':'')
      in if length hostVolume < 2 then isHostMountedVolume dir volumes
         else if isParentOf (path_Clean (hostVolume ! 1)) (path_Clean dir) then True
         else isHostMountedVolume dir volumes)"

definition createBuildVolume :: "nat \<Rightarrow> Env \<Rightarrow> executor \<Rightarrow> (error option \<times> executor) option" where
  "createBuildVolume fuel e s =
     (let parentDir = path_Dir (Build_FullProjectDir (build e))
      in if \<not> path_IsAbs parentDir \<and> parentDir \<noteq> ''/''
         then Some (Some (ErrorString ''build directory needs to be absolute and non-root path''), s)
         else if isHostMountedVolume (Build_RootDir (build e)) (Docker_Volumes (Config_Docker e))
         then Some (None, s)
         else if Build_GitStrategy (build e) = GitFetch \<and> \<not> Docker_DisableCache (Config_Docker e)
         then addVolume fuel e parentDir s
         else (case createCacheVolume fuel e [] parentDir s of
                 None \<Rightarrow> None
               | Some ((newID, Some err), s1) \<Rightarrow> Some (Some err, s1)
               | Some ((newID, None), s1) \<Rightarrow>
                   Some (None, s1\<lparr>caches := caches s1 @ [newID],
                                   volumesFrom := volumesFrom s1 @ [newID]\<rparr>)))"

fun addVolumes :: "nat \<Rightarrow> Env \<Rightarrow> string list \<Rightarrow> executor \<Rightarrow> (error option \<times> executor) option" where
  "addVolumes fuel e [] s = Some (None, s)"
| "addVolumes fuel e (volume # volumes) s =
     (case addVolume fuel e volume s of
        None \<Rightarrow> None
      | Some (Some err, s1) \<Rightarrow> Some (Some err, s1)
      | Some (None, s1) \<Rightarrow> addVolumes fuel e volumes s1)"

definition createUserVolumes :: "nat \<Rightarrow> Env \<Rightarrow> executor \<Rightarrow> (error option \<times> executor) option" where
  "createUserVolumes fuel e s = addVolumes fuel e (Docker_Volumes (Config_Docker e)) s"

section \<open>Devices\<close>

definition parseDeviceString :: "string \<Rightarrow> error + DeviceMapping" where
  "parseDeviceString deviceString =
     (let parts = strings_Split deviceString (CHR '':'')
      in if length parts > 3 then Inl (ErrorString ''Too many colons'')
         else Inr \<lparr>PathOnHost = parts ! 0,
                   PathInContainer = (if length parts \<ge> 2 then parts ! 1 else parts ! 0),
                   CgroupPermissions = (if length parts \<ge> 3 then parts ! 2 else ''rwm'')\<rparr>)"

fun bindDevices_loop :: "Env \<Rightarrow> string list \<Rightarrow> executor \<Rightarrow> error option \<times> executor" where
  "bindDevices_loop e [] s = (None, s)"
| "bindDevices_loop e (deviceString # rest) s =
     (case parseDeviceString deviceString of
        Inl err \<Rightarrow>
          (Some (ErrorString (''Failed to parse device string '' @ Quote (lib e) deviceString
                              @ '': '' @ Error err)), s)
      | Inr device \<Rightarrow> bindDevices_loop e rest (s\<lparr>devices := devices s @ [device]\<rparr>))"

definition bindDevices :: "Env \<Rightarrow> executor \<Rightarrow> error option \<times> executor" where
  "bindDevices e s = bindDevices_loop e (Docker_Devices (Config_Docker e)) s"


section \<open>Services\<close>

text \<open>
  \<^verbatim>\<open>ReferenceRegexpNoPort\<close> is the regular expression
  \<^verbatim>\<open>^(.*?)(|:[0-9]+)(|/.*)$\<close>: the shortest prefix (without a line feed, which
  \<^verbatim>\<open>.\<close> does not match) after which the rest is an optional port and an optional
  path. \<open>NoPort_rest\<close> matches the rest against the last two groups.
\<close>

definition is_digit :: "char \<Rightarrow> bool" where
  "is_digit c = (c \<in> set ''0123456789'')"

definition NoPort_rest :: "string \<Rightarrow> (string \<times> string) option" where
  "NoPort_rest r =
     (if r = [] then Some ([], [])
      else if hd r = CHR ''/'' \<and> CHR 0x0A \<notin> set (tl r) then Some ([], r)
      else if hd r = CHR '':'' then
        (let ds = takeWhile is_digit (tl r);
             rem = dropWhile is_digit (tl r)
         in if ds \<noteq> [] \<and> (rem = [] \<or> (hd rem = CHR ''/'' \<and> CHR 0x0A \<notin> set (tl rem)))
            then Some (CHR '':'' # ds, rem)
            else None)
      else None)"

fun ReferenceRegexpNoPort :: "string \<Rightarrow> (string \<times> string \<times> string) option" where
  "ReferenceRegexpNoPort [] = map_option (\<lambda>(port, rest). ([], port, rest)) (NoPort_rest [])"
| "ReferenceRegexpNoPort (c # cs) =
     (case NoPort_rest (c # cs) of
        Some (port, rest) \<Rightarrow> Some ([], port, rest)
      | None \<Rightarrow>
          if c = CHR 0x0A then None
          else map_option (\<lambda>(name, port, rest). (c # name, port, rest)) (ReferenceRegexpNoPort cs))"

text \<open>
  \<^verbatim>\<open>splitServiceAndVersion\<close> has no error among its results. The one failure the
  model adds is the panic of \<^verbatim>\<open>matchService[1]\<close> when \<^verbatim>\<open>ReferenceRegexpNoPort\<close>
  does not match.
\<close>

definition splitServiceAndVersion ::
  "Env \<Rightarrow> string \<Rightarrow> error + (string \<times> string \<times> string \<times> string list)" where
  "splitServiceAndVersion e serviceDescription =
     (case ReferenceRegexp (lib e) serviceDescription of
        None \<Rightarrow> Inr ([], ''latest'', serviceDescription, [])
      | Some (match1, match2, match3) \<Rightarrow>
          (case ReferenceRegexpNoPort match1 of
             None \<Rightarrow> Inl (Panic ''index out of range'')
           | Some (matchService1, matchService2, matchService3) \<Rightarrow>
               (let service = matchService1 @ matchService3;
                    version = (if length match2 > 0 then match2 else ''latest'');
                    imageName = (if length match2 > 0 then serviceDescription
                                 else match1 @ '':'' @ ''latest'');
                    linkName = replace_slash service ''__'';
                    alternativeName = replace_slash service ''-''
                in Inr (service, version, imageName,
                        [linkName] @ (if linkName \<noteq> alternativeName then [alternativeName] else [])))))"

definition fakeContainer :: "string \<Rightarrow> string list \<Rightarrow> Container" where
  "fakeContainer cid names = \<lparr>ID = cid, Names = names\<rparr>"

definition getServiceVariables :: "Env \<Rightarrow> string list" where
  "getServiceVariables e = Build_PublicOrInternal_StringList (build e)"

definition createService ::
  "Env \<Rightarrow> string \<Rightarrow> string \<Rightarrow> string \<Rightarrow> executor \<Rightarrow> (error + Container) \<times> executor" where
  "createService e service version img s =
     (if length service = 0 then (Inl (ErrorString ''invalid service name''), s)
      else
        (case getDockerImage e img s of
           ((_, Some err), s1) \<Rightarrow> (Inl err, s1)
         | ((None, None), s1) \<Rightarrow> (Inl (Panic ''nil pointer dereference''), s1)
         | ((Some serviceImage, None), s1) \<Rightarrow>
             (let containerName = Build_ProjectUniqueName (build e) @ ''-''
                                  @ replace_slash service ''__'';
                  s2 = snd (removeContainer e containerName s1);
                  config = zero_Config\<lparr>
                    Config_Image := Image_ID serviceImage,
                    Config_Labels := getLabels e ''service''
                       [''service='' @ service, ''service.version='' @ version],
                    Config_Env := getServiceVariables e\<rparr>;
                  hostConfig = zero_HostConfig\<lparr>
                    Host_RestartPolicy := neverRestartPolicy,
                    Host_Privileged := Docker_Privileged (Config_Docker e),
                    Host_NetworkMode := Docker_NetworkMode (Config_Docker e),
                    Host_Binds := binds s2,
                    Host_VolumesFrom := volumesFrom s2,
                    Host_LogConfig_Type := ''json-file''\<rparr>
              in case client_ContainerCreate e config hostConfig containerName s2 of
                   ((respID, Some err), s3) \<Rightarrow> (Inl err, s3)
                 | ((respID, None), s3) \<Rightarrow>
                     (case client_ContainerStart e respID s3 of
                        (Some err, s4) \<Rightarrow> (Inl err, s4\<lparr>failures := failures s4 @ [respID]\<rparr>)
                      | (None, s4) \<Rightarrow> (Inr (fakeContainer respID [containerName]), s4)))))"

definition verifyAllowedImage ::
  "Env \<Rightarrow> string \<Rightarrow> string \<Rightarrow> string list \<Rightarrow> string list \<Rightarrow> error option" where
  "verifyAllowedImage e img optionName allowedImages internalImages =
     (if list_ex (\<lambda>allowedImage. Match (lib e) allowedImage img) allowedImages then None
      else if list_ex (\<lambda>internalImage. internalImage = img) internalImages then None
      else if length allowedImages \<noteq> 0 then Some (ErrorString ''invalid image'')
      else None)"

fun getServiceNames_loop :: "Env \<Rightarrow> string list \<Rightarrow> string list \<Rightarrow> error + string list" where
  "getServiceNames_loop e names [] = Inr names"
| "getServiceNames_loop e names (service # rest) =
     (let service = Build_ExpandValue (build e) service
      in case verifyAllowedImage e service ''services''
                (Docker_AllowedServices (Config_Docker e)) (Docker_Services (Config_Docker e)) of
           Some err \<Rightarrow> Inl err
         | None \<Rightarrow> getServiceNames_loop e (names @ [service]) rest)"

definition getServiceNames :: "Env \<Rightarrow> executor \<Rightarrow> error + string list" where
  "getServiceNames e s =
     getServiceNames_loop e (Docker_Services (Config_Docker e)) (options_Services (options s))"

text \<open>
  The health check of a service gives up after \<open>timeout\<close> seconds
  (\<^verbatim>\<open>time.After(timeout)\<close>); the wait polls once a second, so the model gives the
  wait \<open>timeout\<close> inspections and reports the timeout when they are used up. The
  deferred \<^verbatim>\<open>removeContainer\<close> runs on every return after the create.
\<close>

definition runServiceHealthCheckContainer ::
  "Env \<Rightarrow> Container \<Rightarrow> int \<Rightarrow> executor \<Rightarrow> error option \<times> executor" where
  "runServiceHealthCheckContainer e service timeout s =
     (case getPrebuiltImage e s of
        (Inl err, s1) \<Rightarrow> (Some err, s1)
      | (Inr waitImage, s1) \<Rightarrow>
          (case Names service of
             [] \<Rightarrow> (Some (Panic ''index out of range''), s1)
           | name0 # _ \<Rightarrow>
               (let containerName = name0 @ ''-wait-for-service'';
                    config = zero_Config\<lparr>
                      Config_Cmd := [''gitlab-runner-service''],
                      Config_Image := Image_ID waitImage,
                      Config_Labels := getLabels e ''wait'' [''wait='' @ ID service]\<rparr>;
                    hostConfig = zero_HostConfig\<lparr>
                      Host_RestartPolicy := neverRestartPolicy,
                      Host_Links := [name0 @ '':'' @ name0],
                      Host_NetworkMode := Docker_NetworkMode (Config_Docker e),
                      Host_LogConfig_Type := ''json-file''\<rparr>
                in case client_ContainerCreate e config hostConfig containerName s1 of
                     ((respID, Some err), s2) \<Rightarrow> (Some err, s2)
                   | ((respID, None), s2) \<Rightarrow>
                       (case client_ContainerStart e respID s2 of
                          (Some err, s3) \<Rightarrow> (Some err, snd (removeContainer e respID s3))
                        | (None, s3) \<Rightarrow>
                            (case waitForContainer (nat timeout) e respID s3 of
                               (Some err, s4) \<Rightarrow> (err, snd (removeContainer e respID s4))
                             | (None, s4) \<Rightarrow>
                                 (Some (ErrorString (''service '' @ containerName @ '' did timeout'')),
                                  snd (removeContainer e respID s4)))))))"

text \<open>
  \<^verbatim>\<open>waitForServiceContainer\<close> writes a warning with the logs of the service to the
  build trace when the health check failed; the error it returns is then the one of
  \<^verbatim>\<open>ContainerLogs\<close>.
\<close>

definition waitForServiceContainer ::
  "Env \<Rightarrow> Container \<Rightarrow> int \<Rightarrow> executor \<Rightarrow> error option \<times> executor" where
  "waitForServiceContainer e service timeout s =
     (case runServiceHealthCheckContainer e service timeout s of
        (None, s1) \<Rightarrow> (None, s1)
      | (Some err, s1) \<Rightarrow>
          (case client_ContainerLogs e (ID service) s1 of
             ((hijacked, err'), s2) \<Rightarrow> (err', s2)))"

text \<open>
  \<^verbatim>\<open>waitForServices\<close> starts one goroutine for each service and waits for all of
  them. The model runs them one after the other, in the order of \<open>services\<close>.
\<close>

definition waitForServices :: "Env \<Rightarrow> executor \<Rightarrow> executor" where
  "waitForServices e s =
     (let waitForServicesTimeout = Docker_WaitForServicesTimeout (Config_Docker e);
          waitForServicesTimeout =
            (if waitForServicesTimeout = 0 then DefaultWaitForServicesTimeout (lib e)
             else waitForServicesTimeout)
      in if waitForServicesTimeout > 0 \<and> length (services s) > 0
         then fold (\<lambda>service s'. snd (waitForServiceContainer e service waitForServicesTimeout s'))
                (services s) s
         else s)"

text \<open>
  \<open>linksMap\<close> is a Go map from link names to containers. The model keeps it as a list
  of pairs with distinct keys, in the order of insertion, and \<^verbatim>\<open>buildServiceLinks\<close>
  ranges over it in that order (Go leaves the order open).
\<close>

fun buildServiceLinks ::
  "Env \<Rightarrow> (string \<times> Container) list \<Rightarrow> string list \<Rightarrow> executor \<Rightarrow> string list \<times> executor" where
  "buildServiceLinks e [] links' s = (links', s)"
| "buildServiceLinks e ((linkName, linkee) # linksMap) links' s =
     (case client_ContainerInspect e (ID linkee) s of
        ((newContainer, Some err), s1) \<Rightarrow> buildServiceLinks e linksMap links' s1
      | ((newContainer, None), s1) \<Rightarrow>
          if JSON_Running newContainer
          then buildServiceLinks e linksMap (links' @ [ID linkee @ '':'' @ linkName]) s1
          else buildServiceLinks e linksMap links' s1)"

fun createFromLinkNames ::
  "Env \<Rightarrow> string \<Rightarrow> string \<Rightarrow> string \<Rightarrow> string list \<Rightarrow> Container option
   \<Rightarrow> (string \<times> Container) list \<Rightarrow> executor
   \<Rightarrow> error option \<times> (string \<times> Container) list \<times> executor" where
  "createFromLinkNames e service version imageName [] container linksMap s = (None, linksMap, s)"
| "createFromLinkNames e service version imageName (linkName # linkNames) container linksMap s =
     (if map_of linksMap linkName \<noteq> None
      then createFromLinkNames e service version imageName linkNames container linksMap s
      else (case container of
              Some c \<Rightarrow>
                createFromLinkNames e service version imageName linkNames (Some c)
                  (linksMap @ [(linkName, c)]) s
            | None \<Rightarrow>
                (case createService e service version imageName s of
                   (Inl err, s1) \<Rightarrow> (Some err, linksMap, s1)
                 | (Inr c, s1) \<Rightarrow>
                     createFromLinkNames e service version imageName linkNames (Some c)
                       (linksMap @ [(linkName, c)]) (s1\<lparr>services := services s1 @ [c]\<rparr>))))"

definition createFromServiceDescription ::
  "Env \<Rightarrow> string \<Rightarrow> (string \<times> Container) list \<Rightarrow> executor
   \<Rightarrow> error option \<times> (string \<times> Container) list \<times> executor" where
  "createFromServiceDescription e description linksMap s =
     (case splitServiceAndVersion e description of
        Inl err \<Rightarrow> (Some err, linksMap, s)
      | Inr (service, version, imageName, linkNames) \<Rightarrow>
          createFromLinkNames e service version imageName linkNames None linksMap s)"

fun createServices_loop ::
  "Env \<Rightarrow> string list \<Rightarrow> (string \<times> Container) list \<Rightarrow> executor
   \<Rightarrow> error option \<times> (string \<times> Container) list \<times> executor" where
  "createServices_loop e [] linksMap s = (None, linksMap, s)"
| "createServices_loop e (serviceDescription # serviceNames) linksMap s =
     (case createFromServiceDescription e serviceDescription linksMap s of
        (Some err, linksMap1, s1) \<Rightarrow> (Some err, linksMap1, s1)
      | (None, linksMap1, s1) \<Rightarrow> createServices_loop e serviceNames linksMap1 s1)"

definition createServices :: "Env \<Rightarrow> executor \<Rightarrow> error option \<times> executor" where
  "createServices e s =
     (case getServiceNames e s of
        Inl err \<Rightarrow> (Some err, s)
      | Inr serviceNames \<Rightarrow>
          (case createServices_loop e serviceNames [] s of
             (Some err, linksMap, s1) \<Rightarrow> (Some err, s1)
           | (None, linksMap, s1) \<Rightarrow>
               (case buildServiceLinks e linksMap [] (waitForServices e s1) of
                  (links', s2) \<Rightarrow> (None, s2\<lparr>links := links'\<rparr>))))"


section \<open>The build container\<close>

definition createContainer ::
  "Env \<Rightarrow> string \<Rightarrow> string \<Rightarrow> string list \<Rightarrow> executor \<Rightarrow> (error + ContainerJSON) \<times> executor" where
  "createContainer e containerType imageName cmd s =
     (case getDockerImage e imageName s of
        ((_, Some err), s1) \<Rightarrow> (Inl err, s1)
      | ((None, None), s1) \<Rightarrow> (Inl (Panic ''nil pointer dereference''), s1)
      | ((Some img, None), s1) \<Rightarrow>
          (let hostname = (if Docker_Hostname (Config_Docker e) = []
                           then Build_ProjectUniqueName (build e)
                           else Docker_Hostname (Config_Docker e));
               containerName = Build_ProjectUniqueName (build e) @ ''-'' @ containerType;
               config = zero_Config\<lparr>
                 Config_Image := Image_ID img,
                 Config_Hostname := hostname,
                 Config_Cmd := cmd,
                 Config_Labels := getLabels e containerType [],
                 Config_Tty := False,
                 Config_AttachStdin := True,
                 Config_AttachStdout := True,
                 Config_AttachStderr := True,
                 Config_OpenStdin := True,
                 Config_StdinOnce := True,
                 Config_Env := Build_Variables_StringList (build e) @ Environment (BuildShell e)\<rparr>;
               hostConfig = zero_HostConfig\<lparr>
                 Host_CpusetCpus := Docker_CPUSetCPUs (Config_Docker e),
                 Host_Devices := devices s1,
                 Host_DNS := Docker_DNS (Config_Docker e),
                 Host_DNSSearch := Docker_DNSSearch (Config_Docker e),
                 Host_Privileged := Docker_Privileged (Config_Docker e),
                 Host_CapAdd := Docker_CapAdd (Config_Docker e),
                 Host_CapDrop := Docker_CapDrop (Config_Docker e),
                 Host_SecurityOpt := Docker_SecurityOpt (Config_Docker e),
                 Host_RestartPolicy := neverRestartPolicy,
                 Host_ExtraHosts := Docker_ExtraHosts (Config_Docker e),
                 Host_NetworkMode := Docker_NetworkMode (Config_Docker e),
                 Host_Links := Docker_Links (Config_Docker e) @ links s1,
                 Host_Binds := binds s1,
                 Host_VolumeDriver := Docker_VolumeDriver (Config_Docker e),
                 Host_VolumesFrom := Docker_VolumesFrom (Config_Docker e) @ volumesFrom s1,
                 Host_LogConfig_Type := ''json-file''\<rparr>;
               s2 = snd (removeContainer e containerName s1)
           in case client_ContainerCreate e config hostConfig containerName s2 of
                ((respID, Some err), s3) \<Rightarrow>
                  (Inl err, if respID \<noteq> [] then s3\<lparr>failures := failures s3 @ [respID]\<rparr> else s3)
              | ((respID, None), s3) \<Rightarrow>
                  (case client_ContainerInspect e respID s3 of
                     ((inspect, Some err), s4) \<Rightarrow>
                       (Inl err, s4\<lparr>failures := failures s4 @ [respID]\<rparr>)
                   | ((inspect, None), s4) \<Rightarrow> (Inr inspect, s4))))"

section \<open>Prepare and Cleanup\<close>

definition getImageName :: "Env \<Rightarrow> executor \<Rightarrow> error + string" where
  "getImageName e s =
     (if options_Image (options s) \<noteq> [] then
        (let img = Build_ExpandValue (build e) (options_Image (options s))
         in case verifyAllowedImage e (options_Image (options s)) ''images''
                   (Docker_AllowedImages (Config_Docker e)) [Docker_Image (Config_Docker e)] of
              Some err \<Rightarrow> Inl err
            | None \<Rightarrow> Inr img)
      else if Docker_Image (Config_Docker e) = []
      then Inl (ErrorString ''No Docker image specified to run the build in'')
      else Inr (Docker_Image (Config_Docker e)))"

definition connectDocker :: "Env \<Rightarrow> executor \<Rightarrow> error option \<times> executor" where
  "connectDocker e s =
     (case New (daemon e) of
        Some err \<Rightarrow> (Some err, s)
      | None \<Rightarrow>
          (case client_Info e (s\<lparr>client := True\<rparr>) of
             ((i, err), s1) \<Rightarrow> (err, s1\<lparr>info := i\<rparr>)))"

definition createDependencies :: "nat \<Rightarrow> Env \<Rightarrow> executor \<Rightarrow> (error option \<times> executor) option" where
  "createDependencies fuel e s =
     (case bindDevices e s of
        (Some err, s1) \<Rightarrow> Some (Some err, s1)
      | (None, s1) \<Rightarrow>
          (case createBuildVolume fuel e s1 of
             None \<Rightarrow> None
           | Some (Some err, s2) \<Rightarrow> Some (Some err, s2)
           | Some (None, s2) \<Rightarrow>
               (case createServices e s2 of
                  (Some err, s3) \<Rightarrow> Some (Some err, s3)
                | (None, s3) \<Rightarrow>
                    (case createUserVolumes fuel e s3 of
                       None \<Rightarrow> None
                     | Some (Some err, s4) \<Rightarrow> Some (Some err, s4)
                     | Some (None, s4) \<Rightarrow> Some (None, s4)))))"

text \<open>
  \<^verbatim>\<open>prepareBuildsDir\<close> reads \<^verbatim>\<open>config.Docker.Volumes\<close>: with no docker section
  (\<^verbatim>\<open>config.Docker == nil\<close>) the read panics.
\<close>

definition prepareBuildsDir :: "RunnerConfig \<Rightarrow> executor \<Rightarrow> error option \<times> executor" where
  "prepareBuildsDir config s =
     (let rootDir = (if BuildsDir config = [] then DefaultBuildsDir s else BuildsDir config)
      in case Docker config of
           None \<Rightarrow> (Some (Panic ''nil pointer dereference''), s)
         | Some docker \<Rightarrow>
             (None, if isHostMountedVolume rootDir (Docker_Volumes docker)
                    then s\<lparr>SharedBuildsDir := True\<rparr> else s))"

text \<open>
  \<^verbatim>\<open>AbstractExecutor.Prepare\<close> is not among these sources. It stores the
  configuration and the build in the executor, asks the selected shell for its
  configuration (\<^verbatim>\<open>GetConfiguration\<close>) and stores that in \<^verbatim>\<open>s.BuildShell\<close>, or
  returns an error: \<open>abstractPrepare\<close> is its outcome, the error or the shell's
  configuration. \<^verbatim>\<open>Prepare\<close> returns \<open>None\<close> when a wait for a cache container is
  not over after \<open>fuel\<close> inspections.
\<close>

definition Prepare ::
  "nat \<Rightarrow> Lib \<Rightarrow> Client \<Rightarrow> error + ShellConfiguration \<Rightarrow> RunnerConfig \<Rightarrow> Build \<Rightarrow> executor
   \<Rightarrow> (error option \<times> executor) option" where
  "Prepare fuel l cl abstractPrepare config b s =
     (case prepareBuildsDir config s of
        (Some err, s1) \<Rightarrow> Some (Some err, s1)
      | (None, s1) \<Rightarrow>
          (case abstractPrepare of
             Inl err \<Rightarrow> Some (Some err, s1)
           | Inr shell \<Rightarrow>
               if PassFile shell
               then Some (Some (ErrorString ''Docker doesn't support shells that require script file''), s1)
               else
                 (case Docker config of
                    None \<Rightarrow> Some (Some (ErrorString ''Missing docker configuration''), s1)
                  | Some docker \<Rightarrow>
                      (case Build_Options_Decode b of
                         Inl err \<Rightarrow> Some (Some err, s1)
                       | Inr opts \<Rightarrow>
                           (let s2 = s1\<lparr>options := opts\<rparr>;
                                e = \<lparr>Config_Docker = docker, build = b, BuildShell = shell,
                                     daemon = cl, lib = l\<rparr>
                            in case getImageName e s2 of
                                 Inl err \<Rightarrow> Some (Some err, s2)
                               | Inr imageName \<Rightarrow>
                                   (case connectDocker e s2 of
                                      (Some err, s3) \<Rightarrow> Some (Some err, s3)
                                    | (None, s3) \<Rightarrow> createDependencies fuel e s3))))))"

text \<open>
  \<^verbatim>\<open>Cleanup\<close> removes every registered container, each in a goroutine of its
  own, waits for all of them and closes the client. The model runs the removals one
  after the other, in the order in which \<^verbatim>\<open>Cleanup\<close> starts them. A removal calls
  methods of \<^verbatim>\<open>s.client\<close>, which panics when the client is \<^verbatim>\<open>nil\<close>: this is the
  only result \<open>Some\<close>, \<^verbatim>\<open>Cleanup\<close> returns nothing.
\<close>

definition registered :: "executor \<Rightarrow> string list" where
  "registered s = failures s @ map ID (services s) @ caches s @ map ID (builds s)"

definition Cleanup :: "Env \<Rightarrow> executor \<Rightarrow> error option \<times> executor" where
  "Cleanup e s =
     (if registered s \<noteq> [] \<and> \<not> client s then (Some (Panic ''nil pointer dereference''), s)
      else
        (let s1 = fold (\<lambda>cid s'. snd (removeContainer e cid s')) (registered s) s
         in (None, if client s1 then record_call Call_Close s1 else s1)))"

section \<open>The PowerShell shell\<close>

text \<open>\<^verbatim>\<open>PowerShell.GetConfiguration\<close> of \<^verbatim>\<open>shells/powershell.go\<close>; it does not read its argument.\<close>

definition PowerShell_GetConfiguration :: "'info \<Rightarrow> ShellConfiguration \<times> error option" where
  "PowerShell_GetConfiguration shellScriptInfo =
     (\<lparr>Environment = [], Command = ''powershell'',
       Arguments = [''-noprofile'', ''-noninteractive'', ''-executionpolicy'', ''Bypass'', ''-command''],
       PassFile = True, Extension = ''ps1''\<rparr>, None)"


section \<open>An example environment\<close>

text \<open>
  A library, a configuration, a build and a daemon to run the executor on: the closed
  instances of the theorems below use them. \<open>example_lib\<close> matches patterns that end
  in a star as \<^verbatim>\<open>filepath.Match\<close> does (the star stands for any characters but the
  slash) and other patterns by equality; of the reference grammar it knows two
  references, and rejects the rest; \<open>md5hex\<close> holds the digests of the two paths of
  the examples, \<^verbatim>\<open>/cache\<close> and \<^verbatim>\<open>/\<close>.
\<close>

definition example_lib :: Lib where
  "example_lib =
     \<lparr>md5hex = (\<lambda>p. if p = ''/cache'' then ''3c3f060a0374fc8bc39395164f415a70''
                      else ''6666cd76f96956469e7be39d750cc7d9''),
      Match = (\<lambda>pattern name.
                 if pattern \<noteq> [] \<and> last pattern = CHR ''*''
                 then prefix (butlast pattern) name
                      \<and> CHR ''/'' \<notin> set (drop (length pattern - 1) name)
                 else pattern = name),
      ReferenceRegexp = (\<lambda>s. if s = ''postgres:9.6'' then Some (''postgres'', ''9.6'', [])
                              else if s = ''postgres'' then Some (''postgres'', [], [])
                              else None),
      Asset = (\<lambda>name. Inr ''tar''),
      filepath_Abs = Inr,
      filepath_ToSlash = (\<lambda>p. p),
      Quote = (\<lambda>s. s),
      GOARCH = ''amd64'',
      prebuiltImageName = ''gitlab-runner-prebuilt'',
      prebuiltImageExtension = ''.tar.gz'',
      dockerLabelPrefix = ''com.gitlab.gitlab-runner'',
      REVISION = ''HEAD'',
      DefaultWaitForServicesTimeout = 30,
      SplitDockerImageName = (\<lambda>name. ''docker.io''),
      ReadAuthConfigsFromReader = (\<lambda>s. None),
      ReadDockerAuthConfigsFromHomeDir = None,
      ResolveDockerAuthConfig = (\<lambda>indexName authConfigs. None),
      EncodeAuthConfig = (\<lambda>ac. [])\<rparr>"

definition example_docker :: DockerConfig where
  "example_docker =
     \<lparr>Docker_Hostname = [], Docker_Image = ''alpine'', Docker_CPUSetCPUs = [], Docker_DNS = [],
      Docker_DNSSearch = [], Docker_Privileged = False, Docker_CapAdd = [], Docker_CapDrop = [],
      Docker_SecurityOpt = [], Docker_Devices = [], Docker_DisableCache = False,
      Docker_Volumes = [], Docker_VolumeDriver = [], Docker_CacheDir = [],
      Docker_ExtraHosts = [], Docker_VolumesFrom = [], Docker_NetworkMode = [],
      Docker_Links = [], Docker_Services = [], Docker_WaitForServicesTimeout = 0,
      Docker_AllowedImages = [], Docker_AllowedServices = [],
      Docker_PullPolicy_Get = Inr PullPolicyAlways\<rparr>"

definition example_build :: Build where
  "example_build =
     \<lparr>Build_ID = 7, Build_Sha = ''1a2b3c'', Build_BeforeSha = ''000000'', Build_RefName = ''master'',
      Build_ProjectID = 3, Build_RunnerID = 1, Build_Runner_ShortDescription = ''e2a4c1'',
      Build_RootDir = ''/builds'', Build_ProjectUniqueName = ''proj'',
      Build_FullProjectDir = ''/builds/group/project'', Build_GitStrategy = GitFetch,
      Build_Credentials = [], Build_DockerAuthConfig = [],
      Build_Variables_StringList = [], Build_PublicOrInternal_StringList = [],
      Build_ExpandValue = (\<lambda>v. v),
      Build_Options_Decode = Inr \<lparr>options_Image = [], options_Services = []\<rparr>\<rparr>"

definition bash_configuration :: ShellConfiguration where
  "bash_configuration =
     \<lparr>Environment = [], Command = ''bash'', Arguments = [], PassFile = False, Extension = []\<rparr>"

definition stopped :: "string \<Rightarrow> int \<Rightarrow> ContainerJSON" where
  "stopped cid code = \<lparr>JSON_ID = cid, JSON_Volumes = {}, JSON_Running = False, JSON_ExitCode = code\<rparr>"

text \<open>
  A daemon that answers every call without an error: every image is there, a created
  container gets the ID \<^verbatim>\<open>new-\<close> and its name, and every container has stopped with
  exit code 0.
\<close>

definition ok_daemon :: Client where
  "ok_daemon =
     \<lparr>New = None,
      Info = (\<lambda>h. (\<lparr>Architecture = ''x86_64''\<rparr>, None)),
      ImageInspectWithRaw = (\<lambda>h name. (\<lparr>Image_ID = ''sha256:'' @ name\<rparr>, None)),
      ImagePullBlocking = (\<lambda>h ref auth. None),
      ImageImportBlocking = (\<lambda>h source ref tag. None),
      ContainerCreate = (\<lambda>h config hostConfig name. (''new-'' @ name, None)),
      ContainerStart = (\<lambda>h cid. None),
      ContainerInspect = (\<lambda>h cid. (stopped cid 0, None)),
      ContainerLogs = (\<lambda>h cid. ([], None)),
      ContainerRemove = (\<lambda>h cid. None),
      NetworkList = (\<lambda>h. ([], None)),
      NetworkDisconnect = (\<lambda>h networkID cid. None)\<rparr>"

definition example_env :: "Client \<Rightarrow> Env" where
  "example_env cl =
     \<lparr>Config_Docker = example_docker, build = example_build, BuildShell = bash_configuration,
      daemon = cl, lib = example_lib\<rparr>"

definition new_executor :: executor where
  "new_executor =
     \<lparr>client = False, failures = [], builds = [], services = [], caches = [],
      options = \<lparr>options_Image = [], options_Services = []\<rparr>, info = \<lparr>Architecture = []\<rparr>,
      binds = [], volumesFrom = [], devices = [], links = [], DefaultBuildsDir = ''/builds'',
      SharedBuildsDir = False, calls = [], created = []\<rparr>"

definition connected_executor :: executor where
  "connected_executor = new_executor\<lparr>client := True, info := \<lparr>Architecture = ''x86_64''\<rparr>\<rparr>"

fun is_inspect :: "call \<Rightarrow> bool" where
  "is_inspect (Call_ContainerInspect cid) = True"
| "is_inspect c = False"

text \<open>
  A daemon whose first \<open>n\<close> container inspections fail with an error that is not
  Not Found, and that then reports the container stopped with exit code \<open>code\<close>.
\<close>

definition flaky_daemon :: "nat \<Rightarrow> int \<Rightarrow> Client" where
  "flaky_daemon n code = ok_daemon\<lparr>ContainerInspect :=
      (\<lambda>h cid. if length (filter is_inspect h) < n
                then (stopped cid 0, Some (ClientError False ''i/o timeout''))
                else (stopped cid code, None))\<rparr>"

text \<open>
  A daemon that has no container but those it created (whose IDs start with
  \<^verbatim>\<open>new-\<close>), and one that also has a cache container \<^verbatim>\<open>old\<close> for the project,
  with the given keys of \<^verbatim>\<open>Config.Volumes\<close>.
\<close>

definition fresh_daemon :: Client where
  "fresh_daemon = ok_daemon\<lparr>ContainerInspect :=
      (\<lambda>h cid. if prefix ''new-'' cid then (stopped cid 0, None)
                else (stopped [] 0, Some (ClientError True ''No such container'')))\<rparr>"

definition cache_daemon :: "string set \<Rightarrow> Client" where
  "cache_daemon volumes = ok_daemon\<lparr>ContainerInspect :=
      (\<lambda>h cid. if prefix ''new-'' cid then (stopped cid 0, None)
                else if prefix ''proj-cache-'' cid
                then (\<lparr>JSON_ID = ''old'', JSON_Volumes = volumes, JSON_Running = False,
                       JSON_ExitCode = 0\<rparr>, None)
                else (stopped [] 0, Some (ClientError True ''No such container'')))\<rparr>"

lemmas example_defs =
  example_env_def example_lib_def example_docker_def example_build_def bash_configuration_def
  ok_daemon_def new_executor_def connected_executor_def stopped_def flaky_daemon_def
  fresh_daemon_def cache_daemon_def

lemmas client_defs =
  record_call_def client_Info_def client_ImageInspectWithRaw_def client_ImagePullBlocking_def
  client_ImageImportBlocking_def client_ContainerCreate_def client_ContainerStart_def
  client_ContainerInspect_def client_ContainerLogs_def client_ContainerRemove_def
  client_NetworkList_def client_NetworkDisconnect_def time_Sleep_def

section \<open>Reading the trace\<close>

text \<open>
  The IDs of the removals in a trace, the names of the containers it creates, and the
  number of times it closes the client.
\<close>

fun removed :: "call \<Rightarrow> string list" where
  "removed (Call_ContainerRemove cid) = [cid]"
| "removed c = []"

definition removes :: "call list \<Rightarrow> string list" where
  "removes cs = concat (map removed cs)"

fun create_name :: "call \<Rightarrow> string list" where
  "create_name (Call_ContainerCreate config hostConfig name) = [name]"
| "create_name c = []"

definition creates :: "call list \<Rightarrow> string list" where
  "creates cs = concat (map create_name cs)"

fun is_close :: "call \<Rightarrow> bool" where
  "is_close Call_Close = True"
| "is_close c = False"

definition closes :: "call list \<Rightarrow> nat" where
  "closes cs = length (filter is_close cs)"

fun is_network :: "call \<Rightarrow> bool" where
  "is_network Call_NetworkList = True"
| "is_network (Call_NetworkDisconnect networkID cid) = True"
| "is_network c = False"

lemma removes_simps [simp]:
  "removes [] = []" "removes (c # cs) = removed c @ removes cs"
  "removes (xs @ ys) = removes xs @ removes ys"
  by (simp_all add: removes_def)

lemma creates_simps [simp]:
  "creates [] = []" "creates (c # cs) = create_name c @ creates cs"
  "creates (xs @ ys) = creates xs @ creates ys"
  by (simp_all add: creates_def)

lemma closes_simps [simp]:
  "closes [] = 0" "closes (c # cs) = (if is_close c then 1 else 0) + closes cs"
  "closes (xs @ ys) = closes xs + closes ys"
  by (simp_all add: closes_def)

lemma network_calls:
  "list_all is_network cs \<Longrightarrow> removes cs = [] \<and> creates cs = [] \<and> closes cs = 0"
proof (induction cs)
  case Nil
  then show ?case by simp
next
  case (Cons c cs)
  then show ?case by (cases c) simp_all
qed

section \<open>Pulling images\<close>

text \<open>The references of the pulls in a trace, in their order.\<close>

fun pulled :: "call \<Rightarrow> string list" where
  "pulled (Call_ImagePullBlocking ref registryAuth) = [ref]"
| "pulled c = []"

definition pulls :: "call list \<Rightarrow> string list" where
  "pulls cs = concat (map pulled cs)"

text \<open>
  The reference that the specification asks a pull to be issued with: the name, with
  \<^verbatim>\<open>:latest\<close> appended when it holds neither a colon nor an at sign.
\<close>

definition spec_pull_reference :: "string \<Rightarrow> string" where
  "spec_pull_reference imageName =
     (if CHR '':'' \<in> set imageName \<or> CHR ''@'' \<in> set imageName then imageName
      else imageName @ '':latest'')"

lemma pulls_append [simp]: "pulls (xs @ ys) = pulls xs @ pulls ys"
  by (simp add: pulls_def)

lemma pulls_Nil [simp]: "pulls [] = []"
  by (simp add: pulls_def)

lemma pulls_Cons [simp]: "pulls (c # cs) = pulled c @ pulls cs"
  by (simp add: pulls_def)

lemma pullDockerImage_pulls:
  "pulls (calls (snd (pullDockerImage e imageName ac s)))
   = pulls (calls s) @ [spec_pull_reference imageName]"
  by (auto simp: pullDockerImage_def spec_pull_reference_def strings_ContainsAny_def
        client_ImagePullBlocking_def client_ImageInspectWithRaw_def record_call_def Let_def
      split: option.splits prod.splits)

lemma getDockerImage_pulls:
  "pulls (calls (snd (getDockerImage e imageName s))) = pulls (calls s)
   \<or> pulls (calls (snd (getDockerImage e imageName s)))
     = pulls (calls s) @ [spec_pull_reference imageName]"
proof -
  have p: "\<And>ac s1 r s2. pullDockerImage e imageName ac s1 = (r, s2)
           \<Longrightarrow> pulls (calls s2) = pulls (calls s1) @ [spec_pull_reference imageName]"
    using pullDockerImage_pulls by (metis snd_conv)
  show ?thesis
    by (auto simp: getDockerImage_def client_ImageInspectWithRaw_def record_call_def Let_def
        split: sum.splits option.splits prod.splits dest!: p)
qed

text \<open>
  C5. Every image name that reaches a pull is pulled under the reference of the
  specification: \<^verbatim>\<open>pullDockerImage\<close>, the one place that pulls, issues one pull, and
  its reference is the name with \<^verbatim>\<open>:latest\<close> appended if and only if the name holds
  neither \<^verbatim>\<open>:\<close> nor \<^verbatim>\<open>@\<close>, and the name itself otherwise. So
  \<^verbatim>\<open>getDockerImage\<close> issues no pull or this one.
\<close>

theorem pullDockerImage_reference:
  "pulls (calls (snd (pullDockerImage e imageName ac s)))
     = pulls (calls s) @ [spec_pull_reference imageName]
   \<and> (pulls (calls (snd (getDockerImage e imageName s))) = pulls (calls s)
      \<or> pulls (calls (snd (getDockerImage e imageName s)))
        = pulls (calls s) @ [spec_pull_reference imageName])"
  using pullDockerImage_pulls getDockerImage_pulls by blast

text \<open>
  C4. Under the pull policy \<^emph>\<open>never\<close>, \<^verbatim>\<open>getDockerImage\<close> makes one call, the
  local inspection of the image, and returns what it answered, the image and the error
  alike; it issues no pull, whatever the name and whatever the inspection answered.
\<close>

theorem getDockerImage_never:
  assumes "Docker_PullPolicy_Get (Config_Docker e) = Inr PullPolicyNever"
  shows "getDockerImage e imageName s =
           ((Some (fst (ImageInspectWithRaw (daemon e) (calls s) imageName)),
             snd (ImageInspectWithRaw (daemon e) (calls s) imageName)),
            s\<lparr>calls := calls s @ [Call_ImageInspectWithRaw imageName]\<rparr>)
         \<and> pulls (calls (snd (getDockerImage e imageName s))) = pulls (calls s)"
  using assms
  by (auto simp: getDockerImage_def client_ImageInspectWithRaw_def record_call_def Let_def
      split: prod.splits)

text \<open>
  An instance: the policy is \<^emph>\<open>never\<close> and the daemon does not have the image
  \<^verbatim>\<open>notthere\<close>. The error of the inspection is returned and nothing is pulled.
\<close>

definition never_env :: Env where
  "never_env =
     (example_env (ok_daemon\<lparr>ImageInspectWithRaw :=
         (\<lambda>h name. (\<lparr>Image_ID = []\<rparr>, Some (ClientError True (''No such image: '' @ name))))\<rparr>))
     \<lparr>Config_Docker := example_docker\<lparr>Docker_PullPolicy_Get := Inr PullPolicyNever\<rparr>\<rparr>"

theorem getDockerImage_never_witness:
  "getDockerImage never_env ''notthere'' connected_executor =
     ((Some \<lparr>Image_ID = []\<rparr>, Some (ClientError True ''No such image: notthere'')),
      connected_executor\<lparr>calls := [Call_ImageInspectWithRaw ''notthere'']\<rparr>)
   \<and> pulls (calls (snd (getDockerImage never_env ''notthere'' connected_executor))) = []"
  using getDockerImage_never [of never_env "''notthere''" connected_executor]
  by (simp add: never_env_def example_defs)


section \<open>Waiting for a container\<close>

text \<open>
  A wait that starts in state \<open>s\<close> and goes on polling has, before its inspection
  number \<open>i\<close> (from 0), made \<open>i\<close> inspections with one sleep of a second after each:
  \<open>poll_trace cid i\<close>. \<open>inspection e s cid i\<close> is what the daemon answers that
  inspection. An answer is \<open>transient\<close> when it is an error other than Not Found, and
  \<open>final\<close> when it is Not Found or reports a container that is not running;
  \<open>final_result\<close> is what the wait returns on a final answer, and \<open>polled s cid k\<close> the
  state after the inspection number \<open>k\<close>.
\<close>

definition poll_trace :: "string \<Rightarrow> nat \<Rightarrow> call list" where
  "poll_trace cid n = concat (replicate n [Call_ContainerInspect cid, Call_Sleep])"

definition inspection :: "Env \<Rightarrow> executor \<Rightarrow> string \<Rightarrow> nat \<Rightarrow> ContainerJSON \<times> error option" where
  "inspection e s cid i = ContainerInspect (daemon e) (calls s @ poll_trace cid i) cid"

definition transient :: "ContainerJSON \<times> error option \<Rightarrow> bool" where
  "transient r = (case snd r of Some err \<Rightarrow> \<not> IsErrNotFound err | None \<Rightarrow> False)"

definition final :: "ContainerJSON \<times> error option \<Rightarrow> bool" where
  "final r = (case snd r of Some err \<Rightarrow> IsErrNotFound err | None \<Rightarrow> \<not> JSON_Running (fst r))"

definition final_result :: "ContainerJSON \<times> error option \<Rightarrow> error option" where
  "final_result r =
     (case snd r of
        Some err \<Rightarrow> Some err
      | None \<Rightarrow>
          if JSON_ExitCode (fst r) \<noteq> 0
          then Some (BuildError (ErrorString (''exit code '' @ strconv_Itoa (JSON_ExitCode (fst r)))))
          else None)"

definition polled :: "executor \<Rightarrow> string \<Rightarrow> nat \<Rightarrow> executor" where
  "polled s cid k = s\<lparr>calls := calls s @ poll_trace cid k @ [Call_ContainerInspect cid]\<rparr>"

lemma poll_trace_Suc:
  "poll_trace cid (Suc n) = Call_ContainerInspect cid # Call_Sleep # poll_trace cid n"
  by (simp add: poll_trace_def)

lemma poll_trace_0: "poll_trace cid 0 = []"
  by (simp add: poll_trace_def)

lemma inspection_slept:
  "inspection e (time_Sleep (record_call (Call_ContainerInspect cid) s)) cid i
   = inspection e s cid (Suc i)"
  by (simp add: inspection_def time_Sleep_def record_call_def poll_trace_Suc)

lemma polled_slept:
  "polled (time_Sleep (record_call (Call_ContainerInspect cid) s)) cid k = polled s cid (Suc k)"
  by (simp add: polled_def time_Sleep_def record_call_def poll_trace_Suc)

lemma wait_loop_transient:
  assumes "transient (inspection e s cid 0)" and "retries \<le> 3"
  shows "waitForContainer_loop (Suc fuel) e cid retries s
         = waitForContainer_loop fuel e cid (retries + 1)
             (time_Sleep (record_call (Call_ContainerInspect cid) s))"
  using assms
  by (auto simp: transient_def inspection_def poll_trace_0 client_ContainerInspect_def
      split: option.splits prod.splits)

lemma wait_loop_final:
  assumes "final (inspection e s cid 0)"
  shows "waitForContainer_loop (Suc fuel) e cid retries s
         = (Some (final_result (inspection e s cid 0)), polled s cid 0)"
  using assms
  by (auto simp: final_def final_result_def inspection_def polled_def poll_trace_0
        client_ContainerInspect_def record_call_def
      split: option.splits prod.splits)

lemma wait_loop_fifth:
  assumes "transient (inspection e s cid 0)" and "retries > 3"
  shows "waitForContainer_loop (Suc fuel) e cid retries s
         = (Some (snd (inspection e s cid 0)), polled s cid 0)"
  using assms
  by (auto simp: transient_def inspection_def polled_def poll_trace_0
        client_ContainerInspect_def record_call_def
      split: option.splits prod.splits)

lemma wait_loop_stops:
  assumes "\<forall>i<k. transient (inspection e s cid i)"
      and "retries + int k \<le> 4"
      and "final (inspection e s cid k)"
  shows "waitForContainer_loop (Suc k + fuel) e cid retries s
         = (Some (final_result (inspection e s cid k)), polled s cid k)"
  using assms
proof (induction k arbitrary: s retries)
  case 0
  then show ?case using wait_loop_final[of e s cid fuel retries] by simp
next
  case (Suc k)
  let ?s = "time_Sleep (record_call (Call_ContainerInspect cid) s)"
  from Suc.prems(1) have t0: "transient (inspection e s cid 0)" by simp
  have a1: "\<forall>i<k. transient (inspection e ?s cid i)"
    using Suc.prems(1) by (simp add: inspection_slept)
  have a2: "(retries + 1) + int k \<le> 4" using Suc.prems(2) by simp
  have a3: "final (inspection e ?s cid k)" using Suc.prems(3) by (simp add: inspection_slept)
  have r: "retries \<le> 3" using Suc.prems(2) by simp
  have "waitForContainer_loop (Suc (Suc k) + fuel) e cid retries s
        = waitForContainer_loop (Suc k + fuel) e cid (retries + 1) ?s"
    using wait_loop_transient[OF t0 r, of "Suc k + fuel"] by simp
  also have "\<dots> = (Some (final_result (inspection e ?s cid k)), polled ?s cid k)"
    by (rule Suc.IH[OF a1 a2 a3])
  finally show ?case by (simp add: inspection_slept polled_slept)
qed

lemma wait_loop_surfaces:
  assumes "\<forall>i\<le>k. transient (inspection e s cid i)"
      and "retries + int k = 4"
  shows "waitForContainer_loop (Suc k + fuel) e cid retries s
         = (Some (snd (inspection e s cid k)), polled s cid k)"
  using assms
proof (induction k arbitrary: s retries)
  case 0
  then show ?case using wait_loop_fifth[of e s cid retries fuel] by simp
next
  case (Suc k)
  let ?s = "time_Sleep (record_call (Call_ContainerInspect cid) s)"
  from Suc.prems(1) have t0: "transient (inspection e s cid 0)" by simp
  have a1: "\<forall>i\<le>k. transient (inspection e ?s cid i)"
    using Suc.prems(1) by (simp add: inspection_slept)
  have a2: "(retries + 1) + int k = 4" using Suc.prems(2) by simp
  have r: "retries \<le> 3" using Suc.prems(2) by simp
  have "waitForContainer_loop (Suc (Suc k) + fuel) e cid retries s
        = waitForContainer_loop (Suc k + fuel) e cid (retries + 1) ?s"
    using wait_loop_transient[OF t0 r, of "Suc k + fuel"] by simp
  also have "\<dots> = (Some (snd (inspection e ?s cid k)), polled ?s cid k)"
    by (rule Suc.IH[OF a1 a2])
  finally show ?case by (simp add: inspection_slept polled_slept)
qed

lemma wait_loop_running:
  assumes "snd (inspection e s cid 0) = None" and "JSON_Running (fst (inspection e s cid 0))"
  shows "waitForContainer_loop (Suc fuel) e cid retries s
         = waitForContainer_loop fuel e cid 0 (time_Sleep (record_call (Call_ContainerInspect cid) s))"
  using assms
  by (auto simp: inspection_def poll_trace_0 client_ContainerInspect_def
      split: option.splits prod.splits)

text \<open>
  C3, as amended. \<^verbatim>\<open>waitForContainer\<close> inspects the container and sleeps one second
  between two inspections. It tolerates up to four consecutive inspection errors that
  are not Not Found: when at most four such errors are followed by a final answer, it
  returns on that answer, a Not Found error as it is, and for a container that is no
  longer running \<^verbatim>\<open>nil\<close> if the exit code is 0 and a \<^verbatim>\<open>BuildError\<close> otherwise. The
  fifth consecutive error is returned to the caller. An inspection that finds the
  container running sets the count of errors back to zero. In each case enough fuel
  is what the inspections made need.
\<close>

theorem waitForContainer_retries:
  "(k \<le> 4 \<and> (\<forall>i<k. transient (inspection e s cid i)) \<and> final (inspection e s cid k)
      \<longrightarrow> waitForContainer (Suc k + fuel) e cid s
          = (Some (final_result (inspection e s cid k)), polled s cid k))
   \<and> ((\<forall>i\<le>4. transient (inspection e s cid i))
      \<longrightarrow> waitForContainer (5 + fuel) e cid s = (Some (snd (inspection e s cid 4)), polled s cid 4))
   \<and> (snd (inspection e s cid 0) = None \<and> JSON_Running (fst (inspection e s cid 0))
      \<longrightarrow> waitForContainer_loop (Suc fuel) e cid retries s
          = waitForContainer_loop fuel e cid 0
              (s\<lparr>calls := calls s @ [Call_ContainerInspect cid, Call_Sleep]\<rparr>))"
proof (intro conjI impI)
  assume "k \<le> 4 \<and> (\<forall>i<k. transient (inspection e s cid i)) \<and> final (inspection e s cid k)"
  then show "waitForContainer (Suc k + fuel) e cid s
             = (Some (final_result (inspection e s cid k)), polled s cid k)"
    unfolding waitForContainer_def using wait_loop_stops[of k e s cid 0 fuel] by simp
next
  assume "\<forall>i\<le>4. transient (inspection e s cid i)"
  then show "waitForContainer (5 + fuel) e cid s = (Some (snd (inspection e s cid 4)), polled s cid 4)"
    unfolding waitForContainer_def using wait_loop_surfaces[of 4 e s cid 0 fuel] by simp
next
  assume "snd (inspection e s cid 0) = None \<and> JSON_Running (fst (inspection e s cid 0))"
  then show "waitForContainer_loop (Suc fuel) e cid retries s
             = waitForContainer_loop fuel e cid 0
                 (s\<lparr>calls := calls s @ [Call_ContainerInspect cid, Call_Sleep]\<rparr>)"
    using wait_loop_running[of e s cid fuel retries] by (simp add: time_Sleep_def record_call_def)
qed

lemma filter_inspect_poll_trace [simp]: "length (filter is_inspect (poll_trace cid i)) = i"
  by (induction i) (simp_all add: poll_trace_0 poll_trace_Suc)

lemma calls_connected [simp]: "calls connected_executor = []"
  by (simp add: connected_executor_def new_executor_def)

text \<open>
  Two instances: two timeouts and then a container that stopped with exit code 3 give
  the \<^verbatim>\<open>BuildError\<close> after three inspections; five timeouts in a row give the fifth
  timeout after five inspections.
\<close>

theorem waitForContainer_retries_witness:
  "waitForContainer 3 (example_env (flaky_daemon 2 3)) ''c1'' connected_executor
     = (Some (Some (BuildError (ErrorString ''exit code 3''))), polled connected_executor ''c1'' 2)
   \<and> waitForContainer 5 (example_env (flaky_daemon 5 0)) ''c1'' connected_executor
     = (Some (Some (ClientError False ''i/o timeout'')), polled connected_executor ''c1'' 4)"
proof -
  have t2: "\<forall>i<2. transient (inspection (example_env (flaky_daemon 2 3)) connected_executor ''c1'' i)"
    by (simp add: transient_def inspection_def example_env_def flaky_daemon_def ok_daemon_def)
  have f2: "final (inspection (example_env (flaky_daemon 2 3)) connected_executor ''c1'' 2)"
    by (simp add: final_def inspection_def example_env_def flaky_daemon_def ok_daemon_def stopped_def)
  have r2: "final_result (inspection (example_env (flaky_daemon 2 3)) connected_executor ''c1'' 2)
            = Some (BuildError (ErrorString ''exit code 3''))"
    by (simp add: final_result_def inspection_def example_env_def flaky_daemon_def ok_daemon_def
          stopped_def strconv_Itoa_def digits.simps)
  have t5: "\<forall>i\<le>4. transient (inspection (example_env (flaky_daemon 5 0)) connected_executor ''c1'' i)"
    by (simp add: transient_def inspection_def example_env_def flaky_daemon_def ok_daemon_def)
  have r5: "snd (inspection (example_env (flaky_daemon 5 0)) connected_executor ''c1'' 4)
            = Some (ClientError False ''i/o timeout'')"
    by (simp add: inspection_def example_env_def flaky_daemon_def ok_daemon_def)
  from waitForContainer_retries[of 2 "example_env (flaky_daemon 2 3)" connected_executor "''c1''" 0]
       waitForContainer_retries[of 0 "example_env (flaky_daemon 5 0)" connected_executor "''c1''" 0]
       t2 f2 r2 t5 r5
  show ?thesis by (simp add: numeral_eq_Suc)
qed

text \<open>
  Against C3 as the specification states it (up to three consecutive errors are
  tolerated): the first four inspections fail with a timeout, the fifth reports the
  container stopped with exit code 0, and \<^verbatim>\<open>waitForContainer\<close> returns \<^verbatim>\<open>nil\<close>; the
  fourth error in a row was not returned.
\<close>

theorem waitForContainer_fourth_error_tolerated:
  "fst (waitForContainer 5 (example_env (flaky_daemon 4 0)) ''c1'' connected_executor) = Some None
   \<and> calls (snd (waitForContainer 5 (example_env (flaky_daemon 4 0)) ''c1'' connected_executor))
     = poll_trace ''c1'' 4 @ [Call_ContainerInspect ''c1'']"
  by (simp add: waitForContainer_def numeral_eq_Suc example_env_def flaky_daemon_def ok_daemon_def
      connected_executor_def new_executor_def client_ContainerInspect_def record_call_def
      stopped_def time_Sleep_def poll_trace_def)

section \<open>Service references\<close>

text \<open>
  C7, as amended. For a service description that the reference grammar does not match,
  \<^verbatim>\<open>splitServiceAndVersion\<close> returns without a failure: an empty service name, the
  version \<^verbatim>\<open>latest\<close>, the description as the image name and no link names; with no
  link name \<^verbatim>\<open>createFromServiceDescription\<close> creates nothing, changes nothing and
  returns \<^verbatim>\<open>nil\<close>. The parser reads the libraries only: neither the daemon nor the
  configuration, the build or the executor.
\<close>

theorem splitServiceAndVersion_no_match:
  assumes "ReferenceRegexp (lib e) description = None"
  shows "splitServiceAndVersion e description = Inr ([], ''latest'', description, [])
         \<and> createFromServiceDescription e description linksMap s = (None, linksMap, s)
         \<and> (lib e' = lib e \<longrightarrow> splitServiceAndVersion e' description = splitServiceAndVersion e description)"
  using assms by (simp add: splitServiceAndVersion_def createFromServiceDescription_def)

theorem splitServiceAndVersion_no_match_witness:
  "splitServiceAndVersion (example_env ok_daemon) ''not a reference''
     = Inr ([], ''latest'', ''not a reference'', [])
   \<and> createFromServiceDescription (example_env ok_daemon) ''not a reference'' [] connected_executor
     = (None, [], connected_executor)"
  using splitServiceAndVersion_no_match
          [where e = "example_env ok_daemon" and description = "''not a reference''"
             and linksMap = "[]" and s = connected_executor and e' = "example_env ok_daemon"]
  by (simp add: example_env_def example_lib_def)

text \<open>
  Against C7 as the specification states it (a description outside the grammar fails
  with InvalidReference): \<^verbatim>\<open>not a reference\<close> is no reference, the parser returns
  its four results for it, and the service step returns no error.
\<close>

theorem invalid_reference_accepted:
  "splitServiceAndVersion (example_env ok_daemon) ''not a reference''
     = Inr ([], ''latest'', ''not a reference'', [])
   \<and> fst (createFromServiceDescription (example_env ok_daemon) ''not a reference'' []
            connected_executor) = None"
  by (simp add: splitServiceAndVersion_def createFromServiceDescription_def example_env_def
      example_lib_def)

section \<open>The image of the job\<close>

text \<open>
  An environment whose allow-list of images is \<^verbatim>\<open>ruby:*\<close> and whose variables
  expand \<^verbatim>\<open>$IMAGE\<close> to \<^verbatim>\<open>ruby:2.1\<close> and \<^verbatim>\<open>ruby:$TAG\<close> to \<^verbatim>\<open>ruby:2.1/evil\<close>.
\<close>

definition expanding_env :: Env where
  "expanding_env =
     (example_env ok_daemon)
     \<lparr>Config_Docker := example_docker\<lparr>Docker_AllowedImages := [''ruby:*'']\<rparr>,
      build := example_build\<lparr>Build_ExpandValue :=
         (\<lambda>v. if v = ''$IMAGE'' then ''ruby:2.1''
               else if v = ''ruby:$TAG'' then ''ruby:2.1/evil'' else v)\<rparr>\<rparr>"

text \<open>
  What the two functions verify: \<^verbatim>\<open>getServiceNames\<close> returns the services of the
  runner followed by the expanded services of the job, each of which passed the
  allow-list in its expanded form; \<^verbatim>\<open>getImageName\<close> returns the expanded image of
  the job when the image as written passed the allow-list.
\<close>

lemma getServiceNames_loop_expanded:
  "getServiceNames_loop e names declared = Inr result \<Longrightarrow>
   result = names @ map (Build_ExpandValue (build e)) declared
   \<and> (\<forall>service \<in> set declared.
         verifyAllowedImage e (Build_ExpandValue (build e) service) ''services''
           (Docker_AllowedServices (Config_Docker e)) (Docker_Services (Config_Docker e)) = None)"
proof (induction declared arbitrary: names)
  case Nil
  then show ?case by simp
next
  case (Cons service declared)
  from Cons.prems have v: "verifyAllowedImage e (Build_ExpandValue (build e) service) ''services''
           (Docker_AllowedServices (Config_Docker e)) (Docker_Services (Config_Docker e)) = None"
    and rest: "getServiceNames_loop e (names @ [Build_ExpandValue (build e) service]) declared = Inr result"
    by (auto simp: Let_def split: option.splits)
  from Cons.IH[OF rest] v show ?case by simp
qed

lemma getServiceNames_verifies_expanded:
  "getServiceNames e s = Inr result \<Longrightarrow>
   result = Docker_Services (Config_Docker e)
            @ map (Build_ExpandValue (build e)) (options_Services (options s))
   \<and> (\<forall>service \<in> set (options_Services (options s)).
         verifyAllowedImage e (Build_ExpandValue (build e) service) ''services''
           (Docker_AllowedServices (Config_Docker e)) (Docker_Services (Config_Docker e)) = None)"
  unfolding getServiceNames_def by (rule getServiceNames_loop_expanded)

lemma getImageName_code:
  "options_Image (options s) \<noteq> [] \<Longrightarrow>
   getImageName e s =
     (case verifyAllowedImage e (options_Image (options s)) ''images''
             (Docker_AllowedImages (Config_Docker e)) [Docker_Image (Config_Docker e)] of
        Some err \<Rightarrow> Inl err
      | None \<Rightarrow> Inr (Build_ExpandValue (build e) (options_Image (options s))))"
  by (simp add: getImageName_def)

text \<open>
  C8 at two inputs. \<^verbatim>\<open>getImageName\<close> expands the image of the job but verifies the
  string as the job wrote it. The image \<^verbatim>\<open>$IMAGE\<close> is refused although its value
  \<^verbatim>\<open>ruby:2.1\<close> is allowed, and the image \<^verbatim>\<open>ruby:$TAG\<close> is accepted and returned as
  \<^verbatim>\<open>ruby:2.1/evil\<close>, which the allow-list refuses.
\<close>

theorem getImageName_verifies_unexpanded:
  "getImageName expanding_env
     (connected_executor\<lparr>options := \<lparr>options_Image = ''$IMAGE'', options_Services = []\<rparr>\<rparr>)
     = Inl (ErrorString ''invalid image'')
   \<and> verifyAllowedImage expanding_env ''ruby:2.1'' ''images'' [''ruby:*''] [''alpine''] = None
   \<and> getImageName expanding_env
     (connected_executor\<lparr>options := \<lparr>options_Image = ''ruby:$TAG'', options_Services = []\<rparr>\<rparr>)
     = Inr ''ruby:2.1/evil''
   \<and> verifyAllowedImage expanding_env ''ruby:2.1/evil'' ''images'' [''ruby:*''] [''alpine'']
     = Some (ErrorString ''invalid image'')"
  by (simp add: getImageName_def verifyAllowedImage_def expanding_env_def example_defs)

section \<open>The volume of the project and the cache volumes\<close>

definition root_env :: Env where
  "root_env = (example_env fresh_daemon)\<lparr>build := example_build\<lparr>Build_FullProjectDir := ''/builds''\<rparr>\<rparr>"

text \<open>
  The half of C2 that holds: a parent directory that is not absolute is rejected, and
  nothing has been done by then.
\<close>

lemma createBuildVolume_rejects_relative:
  "\<not> path_IsAbs (path_Dir (Build_FullProjectDir (build e))) \<Longrightarrow>
   createBuildVolume fuel e s
   = Some (Some (ErrorString ''build directory needs to be absolute and non-root path''), s)"
  by (auto simp: createBuildVolume_def Let_def path_IsAbs_def)

text \<open>
  C2 at the project directory \<^verbatim>\<open>/builds\<close>. Its parent directory is \<^verbatim>\<open>/\<close>, and
  \<^verbatim>\<open>createBuildVolume\<close> does not reject it: it returns \<^verbatim>\<open>nil\<close> after it has
  created a cache container for the path \<^verbatim>\<open>/\<close>.
\<close>

theorem createBuildVolume_accepts_root_parent:
  "path_Dir ''/builds'' = ''/''
   \<and> map_option (\<lambda>r. (fst r, creates (calls (snd r)), created (snd r)))
        (createBuildVolume 1 root_env connected_executor)
     = Some (None, [''proj-cache-6666cd76f96956469e7be39d750cc7d9''],
             [''new-proj-cache-6666cd76f96956469e7be39d750cc7d9''])"
  by code_simp

text \<open>
  The two branches of \<^verbatim>\<open>addCacheVolume\<close> for an existing cache container: without
  the path among the keys of \<^verbatim>\<open>Config.Volumes\<close> the container is reused after the
  one inspection; with the path among them it is removed, and a new one is created in
  the state the removal left.
\<close>

lemma addCacheVolume_reuses_without_key:
  assumes "\<not> Docker_DisableCache (Config_Docker e)" and "Docker_CacheDir (Config_Docker e) = []"
      and "ContainerInspect (daemon e) (calls s)
             (Build_ProjectUniqueName (build e) @ ''-cache-''
              @ md5hex (lib e) (getAbsoluteContainerPath e containerPath)) = (inspected, None)"
      and "getAbsoluteContainerPath e containerPath \<notin> JSON_Volumes inspected"
      and "JSON_ID inspected \<noteq> []"
  shows "addCacheVolume fuel e containerPath s
         = Some (None, s\<lparr>calls := calls s @ [Call_ContainerInspect
                   (Build_ProjectUniqueName (build e) @ ''-cache-''
                    @ md5hex (lib e) (getAbsoluteContainerPath e containerPath))],
                 volumesFrom := volumesFrom s @ [JSON_ID inspected]\<rparr>)"
  using assms
  by (simp add: addCacheVolume_def Let_def client_ContainerInspect_def record_call_def)

lemma addCacheVolume_recreates_with_key:
  assumes "\<not> Docker_DisableCache (Config_Docker e)" and "Docker_CacheDir (Config_Docker e) = []"
      and "ContainerInspect (daemon e) (calls s)
             (Build_ProjectUniqueName (build e) @ ''-cache-''
              @ md5hex (lib e) (getAbsoluteContainerPath e containerPath)) = (inspected, None)"
      and "getAbsoluteContainerPath e containerPath \<in> JSON_Volumes inspected"
  shows "addCacheVolume fuel e containerPath s
         = (case createCacheVolume fuel e
                  (Build_ProjectUniqueName (build e) @ ''-cache-''
                   @ md5hex (lib e) (getAbsoluteContainerPath e containerPath))
                  (getAbsoluteContainerPath e containerPath)
                  (snd (removeContainer e (JSON_ID inspected)
                     (s\<lparr>calls := calls s @ [Call_ContainerInspect
                        (Build_ProjectUniqueName (build e) @ ''-cache-''
                         @ md5hex (lib e) (getAbsoluteContainerPath e containerPath))]\<rparr>))) of
              None \<Rightarrow> None
            | Some ((newID, Some err), s3) \<Rightarrow> Some (Some err, s3)
            | Some ((newID, None), s3) \<Rightarrow>
                Some (None, s3\<lparr>volumesFrom := volumesFrom s3 @ [newID]\<rparr>))"
  using assms
  by (simp add: addCacheVolume_def Let_def client_ContainerInspect_def record_call_def)

text \<open>
  C1 at two inputs, for the path \<^verbatim>\<open>/cache\<close> and an existing cache container
  \<^verbatim>\<open>old\<close>. When \<^verbatim>\<open>/cache\<close> is a key of the container's \<^verbatim>\<open>Config.Volumes\<close>,
  \<^verbatim>\<open>addCacheVolume\<close> removes the container and creates a new one; when the map has
  no such key, it reuses the container: the test of the map is the wrong way round.
\<close>

theorem addCacheVolume_removes_valid_cache:
  "map_option (\<lambda>r. (fst r, removes (calls (snd r)), creates (calls (snd r)), volumesFrom (snd r)))
     (addCacheVolume 1 (example_env (cache_daemon {''/cache''})) ''/cache'' connected_executor)
   = Some (None, [''old''], [''proj-cache-3c3f060a0374fc8bc39395164f415a70''],
           [''new-proj-cache-3c3f060a0374fc8bc39395164f415a70''])
   \<and> map_option (\<lambda>r. (fst r, removes (calls (snd r)), creates (calls (snd r)), volumesFrom (snd r)))
     (addCacheVolume 1 (example_env (cache_daemon {})) ''/cache'' connected_executor)
   = Some (None, [], [], [''old''])"
  by code_simp


section \<open>Cleanup\<close>

text \<open>
  Disconnecting a container from the networks adds network calls to the trace and
  changes nothing else; removing a container adds its removal after them.
\<close>

lemma disconnectNetworks_calls:
  "\<exists>cs. snd (disconnectNetworks e cid netList err s) = s\<lparr>calls := calls s @ cs\<rparr>
        \<and> list_all is_network cs"
proof (induction netList arbitrary: err s)
  case Nil
  show ?case by (rule exI[of _ "[]"]) simp
next
  case (Cons network netList)
  show ?case
  proof (cases "cid \<in> set (Network_Containers network)")
    case False
    with Cons.IH[of err s] show ?thesis by simp
  next
    case True
    let ?s1 = "record_call (Call_NetworkDisconnect (Network_ID network) cid) s"
    from Cons.IH[of "NetworkDisconnect (daemon e) (calls s) (Network_ID network) cid" ?s1]
    obtain cs where cs: "snd (disconnectNetworks e cid netList
                 (NetworkDisconnect (daemon e) (calls s) (Network_ID network) cid) ?s1)
               = ?s1\<lparr>calls := calls ?s1 @ cs\<rparr>" "list_all is_network cs"
      by blast
    show ?thesis
      by (rule exI[of _ "Call_NetworkDisconnect (Network_ID network) cid # cs"])
         (use True cs in \<open>simp add: client_NetworkDisconnect_def record_call_def\<close>)
  qed
qed

lemma disconnectNetwork_calls:
  "\<exists>cs. snd (disconnectNetwork e cid s) = s\<lparr>calls := calls s @ cs\<rparr> \<and> list_all is_network cs"
proof -
  obtain netList oerr where nl: "NetworkList (daemon e) (calls s) = (netList, oerr)"
    by (cases "NetworkList (daemon e) (calls s)") auto
  show ?thesis
  proof (cases oerr)
    case (Some err)
    show ?thesis
      by (rule exI[of _ "[Call_NetworkList]"])
         (simp add: nl Some disconnectNetwork_def client_NetworkList_def record_call_def)
  next
    case None
    let ?s1 = "record_call Call_NetworkList s"
    from disconnectNetworks_calls[of e cid netList None ?s1]
    obtain cs where cs: "snd (disconnectNetworks e cid netList None ?s1)
                 = ?s1\<lparr>calls := calls ?s1 @ cs\<rparr>" "list_all is_network cs"
      by blast
    show ?thesis
      by (rule exI[of _ "Call_NetworkList # cs"])
         (use cs in \<open>simp add: nl None disconnectNetwork_def client_NetworkList_def record_call_def\<close>)
  qed
qed

lemma removeContainer_calls:
  "\<exists>cs. snd (removeContainer e cid s) = s\<lparr>calls := calls s @ cs @ [Call_ContainerRemove cid]\<rparr>
        \<and> list_all is_network cs"
proof -
  from disconnectNetwork_calls[of e cid s]
  obtain cs where cs: "snd (disconnectNetwork e cid s) = s\<lparr>calls := calls s @ cs\<rparr>"
    "list_all is_network cs" by blast
  obtain r s1 where d: "disconnectNetwork e cid s = (r, s1)"
    by (cases "disconnectNetwork e cid s") auto
  with cs have s1: "s1 = s\<lparr>calls := calls s @ cs\<rparr>" by simp
  show ?thesis
    by (rule exI[of _ cs])
       (simp add: d s1 cs(2) removeContainer_def client_ContainerRemove_def record_call_def)
qed

lemma removeContainers_calls:
  "\<exists>cs. fold (\<lambda>cid s'. snd (removeContainer e cid s')) ids s = s\<lparr>calls := calls s @ cs\<rparr>
        \<and> removes cs = ids \<and> creates cs = [] \<and> closes cs = 0"
proof (induction ids arbitrary: s)
  case Nil
  show ?case by (rule exI[of _ "[]"]) simp
next
  case (Cons cid ids)
  from removeContainer_calls[of e cid s]
  obtain cs1 where cs1: "snd (removeContainer e cid s) = s\<lparr>calls := calls s @ cs1 @ [Call_ContainerRemove cid]\<rparr>"
    "list_all is_network cs1" by blast
  let ?s1 = "snd (removeContainer e cid s)"
  from Cons.IH[of ?s1]
  obtain cs2 where cs2: "fold (\<lambda>cid s'. snd (removeContainer e cid s')) ids ?s1 = ?s1\<lparr>calls := calls ?s1 @ cs2\<rparr>"
    "removes cs2 = ids" "creates cs2 = []" "closes cs2 = 0" by blast
  show ?case
    by (rule exI[of _ "cs1 @ [Call_ContainerRemove cid] @ cs2"])
       (use cs1 cs2 network_calls[OF cs1(2)] in simp)
qed

text \<open>
  C10. \<^verbatim>\<open>Cleanup\<close> issues removals for the IDs registered in \<open>failures\<close>,
  \<open>services\<close>, \<open>caches\<close> and \<open>builds\<close>, one for each entry and in this order, and
  for no other ID (with entries registered and no client, the first removal panics
  before it removes anything). It creates no container. It closes the client once
  when the client is set, and not at all when it is \<^verbatim>\<open>nil\<close>. With no client and
  nothing registered, as after a \<^verbatim>\<open>Prepare\<close> that failed before it connected,
  \<^verbatim>\<open>Cleanup\<close> makes no call to the client and leaves the executor as it is.
\<close>

theorem Cleanup_registered_only:
  "removes (calls (snd (Cleanup e s))) = removes (calls s) @ (if client s then registered s else [])
   \<and> closes (calls (snd (Cleanup e s))) = closes (calls s) + (if client s then 1 else 0)
   \<and> creates (calls (snd (Cleanup e s))) = creates (calls s)
   \<and> (\<not> client s \<and> registered s = [] \<longrightarrow> Cleanup e s = (None, s))"
proof -
  from removeContainers_calls[of e "registered s" s]
  obtain cs where cs: "fold (\<lambda>cid s'. snd (removeContainer e cid s')) (registered s) s = s\<lparr>calls := calls s @ cs\<rparr>"
    "removes cs = registered s" "creates cs = []" "closes cs = 0" by blast
  show ?thesis
    using cs by (auto simp: Cleanup_def Let_def record_call_def)
qed

text \<open>
  Two instances: a new executor, which \<^verbatim>\<open>Cleanup\<close> leaves as it is, and a connected
  one with a failed container and a cache container, both removed before the client
  is closed.
\<close>

theorem Cleanup_registered_only_witness:
  "Cleanup (example_env ok_daemon) new_executor = (None, new_executor)
   \<and> removes (calls (snd (Cleanup (example_env ok_daemon)
        (connected_executor\<lparr>failures := [''f1''], caches := [''c1'']\<rparr>)))) = [''f1'', ''c1'']
   \<and> closes (calls (snd (Cleanup (example_env ok_daemon)
        (connected_executor\<lparr>failures := [''f1''], caches := [''c1'']\<rparr>)))) = 1"
  using Cleanup_registered_only [of "example_env ok_daemon" new_executor]
        Cleanup_registered_only [of "example_env ok_daemon"
          "connected_executor\<lparr>failures := [''f1''], caches := [''c1'']\<rparr>"]
  by (simp add: registered_def new_executor_def connected_executor_def)

section \<open>Prepare\<close>

definition script_error :: error where
  "script_error = ErrorString ''Docker doesn't support shells that require script file''"

text \<open>
  The part of C9 that holds. When the configuration of the runner has a docker
  section and the configuration of the selected shell has \<open>PassFile\<close> set,
  \<^verbatim>\<open>Prepare\<close> returns the error that Docker does not support shells that require a
  script file, before it connects the client: the state is the one
  \<^verbatim>\<open>prepareBuildsDir\<close> left, no call to the client was made, the client is not set
  by it, and no container was created or registered.
\<close>

lemma Prepare_rejects_PassFile:
  assumes "PassFile shell" and "Docker config = Some docker"
  shows "Prepare fuel l cl (Inr shell) config b s
         = Some (Some script_error, snd (prepareBuildsDir config s))
       \<and> calls (snd (prepareBuildsDir config s)) = calls s
       \<and> client (snd (prepareBuildsDir config s)) = client s
       \<and> created (snd (prepareBuildsDir config s)) = created s
       \<and> registered (snd (prepareBuildsDir config s)) = registered s"
  using assms
  by (auto simp: Prepare_def prepareBuildsDir_def script_error_def registered_def Let_def
      split: option.splits)

text \<open>
  An instance: the PowerShell shell, whose \<^verbatim>\<open>GetConfiguration\<close> sets \<open>PassFile\<close>,
  on a new executor and a configuration with a docker section.
\<close>

lemma Prepare_rejects_PowerShell:
  "Prepare 0 example_lib ok_daemon (Inr (fst (PowerShell_GetConfiguration ())))
     \<lparr>BuildsDir = [], Docker = Some example_docker\<rparr> example_build new_executor
   = Some (Some script_error, new_executor)"
  using Prepare_rejects_PassFile
          [of "fst (PowerShell_GetConfiguration ())"
              "\<lparr>BuildsDir = [], Docker = Some example_docker\<rparr>" example_docker
              0 example_lib ok_daemon example_build new_executor]
  by (simp add: PowerShell_GetConfiguration_def prepareBuildsDir_def new_executor_def
      example_docker_def)

text \<open>
  Without a docker section \<^verbatim>\<open>Prepare\<close> does not get as far as the shell:
  \<^verbatim>\<open>prepareBuildsDir\<close>, its first step, reads \<^verbatim>\<open>config.Docker.Volumes\<close> and panics,
  whatever \<^verbatim>\<open>AbstractExecutor.Prepare\<close> would have answered. The test
  \<^verbatim>\<open>config.Docker == nil\<close> further down, which returns an error for the missing
  section, is never reached with a missing section.
\<close>

lemma Prepare_without_docker_section:
  "Docker config = None \<Longrightarrow>
   Prepare fuel l cl abstractPrepare config b s = Some (Some (Panic ''nil pointer dereference''), s)"
  by (simp add: Prepare_def prepareBuildsDir_def Let_def)

text \<open>
  C9 at a configuration of the runner without a docker section, with the PowerShell
  shell (\<open>PassFile\<close> set). \<^verbatim>\<open>Prepare\<close> does not return an error: it panics in
  \<^verbatim>\<open>prepareBuildsDir\<close>, which the model gives as the value \<open>Panic\<close>. No call to the
  client was made and the executor is as it was.
\<close>

theorem Prepare_panics_without_docker_section:
  "PassFile (fst (PowerShell_GetConfiguration ()))
   \<and> Prepare 0 example_lib ok_daemon (Inr (fst (PowerShell_GetConfiguration ())))
       \<lparr>BuildsDir = [], Docker = None\<rparr> example_build new_executor
     = Some (Some (Panic ''nil pointer dereference''), new_executor)"
  by (simp add: PowerShell_GetConfiguration_def Prepare_def prepareBuildsDir_def Let_def)

section \<open>Registering created containers\<close>

text \<open>
  \<open>unchanged s s'\<close>: the client, the registries, the binds, \<open>volumesFrom\<close> and the IDs
  created so far are in \<open>s'\<close> what they are in \<open>s\<close>. Inspecting, pulling and importing
  images, starting, inspecting, waiting for and removing containers leave them so.
\<close>

definition unchanged :: "executor \<Rightarrow> executor \<Rightarrow> bool" where
  "unchanged s s' =
     (client s' = client s \<and> failures s' = failures s \<and> builds s' = builds s
      \<and> services s' = services s \<and> caches s' = caches s \<and> volumesFrom s' = volumesFrom s
      \<and> binds s' = binds s \<and> created s' = created s)"

lemma unchanged_refl [simp]: "unchanged s s"
  by (simp add: unchanged_def)

lemma unchanged_trans: "unchanged s s1 \<Longrightarrow> unchanged s1 s2 \<Longrightarrow> unchanged s s2"
  by (simp add: unchanged_def)

lemma unchanged_calls [simp]: "unchanged s (s\<lparr>calls := cs\<rparr>)"
  by (simp add: unchanged_def)

lemma unchanged_record_call [simp]: "unchanged s (record_call c s)"
  by (simp add: record_call_def)

lemma unchanged_removeContainer: "unchanged s (snd (removeContainer e cid s))"
proof -
  from removeContainer_calls[of e cid s] obtain cs where
    "snd (removeContainer e cid s) = s\<lparr>calls := calls s @ cs @ [Call_ContainerRemove cid]\<rparr>"
    by blast
  then show ?thesis by simp
qed

lemma unchanged_wait_loop: "unchanged s (snd (waitForContainer_loop fuel e cid retries s))"
proof (induction fuel arbitrary: s retries)
  case 0
  show ?case by simp
next
  case (Suc fuel)
  let ?s1 = "time_Sleep (record_call (Call_ContainerInspect cid) s)"
  have u: "unchanged s ?s1" by (simp add: time_Sleep_def record_call_def unchanged_def)
  have "\<And>r. unchanged s (snd (waitForContainer_loop fuel e cid r ?s1))"
    using unchanged_trans[OF u Suc.IH] .
  then show ?case
    by (auto simp: client_ContainerInspect_def split: prod.splits option.splits)
qed

lemma unchanged_wait: "waitForContainer fuel e cid s = (r, s') \<Longrightarrow> unchanged s s'"
  using unchanged_wait_loop[of s fuel e cid 0] by (simp add: waitForContainer_def)

lemma unchanged_pullDockerImage: "pullDockerImage e imageName ac s = (r, s') \<Longrightarrow> unchanged s s'"
  by (auto simp: pullDockerImage_def client_ImagePullBlocking_def client_ImageInspectWithRaw_def
        record_call_def unchanged_def Let_def
      split: option.splits prod.splits if_splits)

lemma unchanged_getDockerImage: "getDockerImage e imageName s = (r, s') \<Longrightarrow> unchanged s s'"
  by (auto simp: getDockerImage_def client_ImageInspectWithRaw_def Let_def
      split: sum.splits option.splits prod.splits if_splits
      dest!: unchanged_pullDockerImage intro: unchanged_trans[of s "record_call c s" for c])

lemma unchanged_getPrebuiltImage: "getPrebuiltImage e s = (r, s') \<Longrightarrow> unchanged s s'"
  by (auto simp: getPrebuiltImage_def client_ImageInspectWithRaw_def client_ImageImportBlocking_def
        record_call_def unchanged_def Let_def
      split: sum.splits option.splits prod.splits if_splits)


lemma created_ContainerCreate:
  "client_ContainerCreate e config hostConfig name s = ((respID, oerr), s') \<Longrightarrow>
   created s' = created s @ (if respID \<noteq> [] then [respID] else [])
   \<and> client s' = client s \<and> failures s' = failures s \<and> builds s' = builds s
   \<and> services s' = services s \<and> caches s' = caches s \<and> volumesFrom s' = volumesFrom s
   \<and> binds s' = binds s"
  by (auto simp: client_ContainerCreate_def record_call_def Let_def split: if_splits)

lemma unchanged_ContainerStart: "client_ContainerStart e cid s = (r, s') \<Longrightarrow> unchanged s s'"
  by (auto simp: client_ContainerStart_def)

lemma unchanged_ContainerInspect: "client_ContainerInspect e cid s = (r, s') \<Longrightarrow> unchanged s s'"
  by (auto simp: client_ContainerInspect_def)

text \<open>
  \<open>kept s s'\<close>: from \<open>s\<close> to \<open>s'\<close> only \<open>failures\<close> and the created IDs may have
  grown.
\<close>

definition kept :: "executor \<Rightarrow> executor \<Rightarrow> bool" where
  "kept s s' = (client s' = client s \<and> builds s' = builds s \<and> services s' = services s
     \<and> caches s' = caches s \<and> volumesFrom s' = volumesFrom s \<and> binds s' = binds s
     \<and> set (failures s) \<subseteq> set (failures s') \<and> set (created s) \<subseteq> set (created s'))"

lemma createCacheVolume_created:
  assumes "createCacheVolume fuel e containerName containerPath s = Some ((cid, oerr), s')"
  shows "set (created s') \<subseteq> set (created s)
           \<union> (case oerr of None \<Rightarrow> {cid} | Some err \<Rightarrow> set (failures s'))
         \<and> kept s s' \<and> (oerr = None \<longrightarrow> failures s' = failures s)"
  using assms
  by (auto simp: createCacheVolume_def Let_def unchanged_def kept_def
      split: sum.splits option.splits prod.splits if_splits
      dest!: unchanged_getPrebuiltImage created_ContainerCreate unchanged_ContainerStart
             unchanged_wait)

lemma addCacheVolume_created:
  assumes "addCacheVolume fuel e containerPath s = Some (oerr, s')"
  shows "set (created s') \<subseteq> set (created s)
           \<union> (case oerr of None \<Rightarrow> set (volumesFrom s') | Some err \<Rightarrow> set (failures s'))
         \<and> caches s' = caches s \<and> services s' = services s \<and> builds s' = builds s
         \<and> (oerr = None \<longrightarrow> failures s' = failures s)"
proof -
  have rm: "\<And>cid s0. unchanged s0 (snd (removeContainer e cid s0))"
    by (rule unchanged_removeContainer)
  show ?thesis
    using assms rm
    by (auto simp: addCacheVolume_def Let_def unchanged_def kept_def
        split: sum.splits option.splits prod.splits if_splits
        dest!: unchanged_ContainerInspect createCacheVolume_created)
qed

lemma addCacheVolume_registered:
  assumes "addCacheVolume fuel e containerPath s = Some (None, s')"
  shows "registered s' = registered s"
  using addCacheVolume_created[OF assms] by (simp add: registered_def)

lemma createBuildVolume_created:
  assumes "createBuildVolume fuel e s = Some (oerr, s')"
      and "\<not> (Build_GitStrategy (build e) = GitFetch \<and> \<not> Docker_DisableCache (Config_Docker e))"
  shows "set (created s') \<subseteq> set (created s) \<union> set (failures s') \<union> set (caches s')"
  using assms
  by (auto simp: createBuildVolume_def Let_def kept_def
      split: option.splits prod.splits if_splits
      dest!: createCacheVolume_created)

lemma createContainer_created:
  assumes "createContainer e containerType imageName cmd s = (Inl err, s')"
  shows "set (created s') \<subseteq> set (created s) \<union> set (failures s')"
proof -
  have rm: "\<And>cid s0. unchanged s0 (snd (removeContainer e cid s0))"
    by (rule unchanged_removeContainer)
  show ?thesis
    using assms rm
    by (auto simp: createContainer_def Let_def unchanged_def
        split: option.splits prod.splits if_splits
        dest!: unchanged_getDockerImage created_ContainerCreate unchanged_ContainerInspect)
qed

lemma createService_created:
  assumes "createService e service version img s = (Inr c, s')"
  shows "set (created s') \<subseteq> set (created s) \<union> {ID c}
         \<and> failures s' = failures s \<and> services s' = services s \<and> caches s' = caches s
         \<and> builds s' = builds s"
proof -
  have rm: "\<And>cid s0. unchanged s0 (snd (removeContainer e cid s0))"
    by (rule unchanged_removeContainer)
  show ?thesis
    using assms rm
    by (auto simp: createService_def Let_def unchanged_def fakeContainer_def
        split: option.splits prod.splits if_splits
        dest!: unchanged_getDockerImage created_ContainerCreate unchanged_ContainerStart)
qed

fun is_start :: "call \<Rightarrow> bool" where
  "is_start (Call_ContainerStart cid) = True"
| "is_start c = False"

definition ends_with_start :: "call list \<Rightarrow> bool" where
  "ends_with_start cs = (case rev cs of [] \<Rightarrow> False | c # _ \<Rightarrow> is_start c)"

text \<open>
  \<^verbatim>\<open>createService\<close> returns straight after the call that failed. When it returns an
  error and the last call of the trace is a start, the create call before it had
  returned no error, and the ID it returned is in \<open>failures\<close>.
\<close>

lemma createService_start_failed:
  assumes "createService e service version img s = (Inl err, s')"
      and "ends_with_start (calls s')"
  shows "set (created s') \<subseteq> set (created s) \<union> set (failures s')"
proof -
  have rm: "\<And>cid s0. unchanged s0 (snd (removeContainer e cid s0))"
    by (rule unchanged_removeContainer)
  show ?thesis
    using assms rm
    by (auto simp: createService_def Let_def unchanged_def client_ContainerCreate_def
          client_ContainerStart_def record_call_def ends_with_start_def
        split: option.splits prod.splits if_splits
        dest!: unchanged_getDockerImage)
qed

lemma createFromLinkNames_created_Some:
  "createFromLinkNames e service version imageName linkNames (Some c) linksMap s
   = (oerr, linksMap', s') \<Longrightarrow> s' = s \<and> oerr = None"
  by (induction linkNames arbitrary: linksMap) (auto split: if_splits)

lemma createFromLinkNames_created:
  assumes "createFromLinkNames e service version imageName linkNames None linksMap s
           = (None, linksMap', s')"
  shows "set (created s') \<subseteq> set (created s) \<union> ID ` set (services s')
         \<and> failures s' = failures s \<and> caches s' = caches s \<and> builds s' = builds s"
  using assms
proof (induction linkNames arbitrary: linksMap)
  case Nil
  then show ?case by simp
next
  case (Cons linkName linkNames)
  show ?case
  proof (cases "map_of linksMap linkName \<noteq> None")
    case True
    with Cons.prems Cons.IH[of linksMap] show ?thesis by simp
  next
    case False
    obtain r s1 where cs: "createService e service version imageName s = (r, s1)"
      by (cases "createService e service version imageName s") auto
    show ?thesis
    proof (cases r)
      case (Inl err)
      with Cons.prems False cs show ?thesis by simp
    next
      case (Inr c)
      with Cons.prems False cs
      have "createFromLinkNames e service version imageName linkNames (Some c)
              (linksMap @ [(linkName, c)]) (s1\<lparr>services := services s1 @ [c]\<rparr>)
            = (None, linksMap', s')" by simp
      from createFromLinkNames_created_Some[OF this]
      have s': "s' = s1\<lparr>services := services s1 @ [c]\<rparr>" by simp
      from createService_created[OF cs[unfolded Inr]] s' show ?thesis by auto
    qed
  qed
qed

lemma createFromServiceDescription_created:
  assumes "createFromServiceDescription e description linksMap s = (None, linksMap', s')"
  shows "set (created s') \<subseteq> set (created s) \<union> ID ` set (services s')
         \<and> failures s' = failures s \<and> caches s' = caches s \<and> builds s' = builds s"
  using assms
  by (auto simp: createFromServiceDescription_def split: sum.splits prod.splits
      dest!: createFromLinkNames_created)

lemma Cleanup_removes:
  "client s \<Longrightarrow> removes (calls (snd (Cleanup e s))) = removes (calls s) @ registered s"
proof -
  assume c: "client s"
  from removeContainers_calls[of e "registered s" s]
  obtain cs where cs: "fold (\<lambda>cid s'. snd (removeContainer e cid s')) (registered s) s = s\<lparr>calls := calls s @ cs\<rparr>"
    "removes cs = registered s" by blast
  show ?thesis
    using cs c by (auto simp: Cleanup_def Let_def record_call_def)
qed

text \<open>
  C6, as amended. An ID that a create call of \<^verbatim>\<open>createCacheVolume\<close> or
  \<^verbatim>\<open>createContainer\<close> returned is in \<open>failures\<close> when the function then fails
  (the create call returned the ID with an error, or the start, the wait or the
  inspection failed), and when \<^verbatim>\<open>createCacheVolume\<close> succeeds the ID is its
  result. The ID of a service container whose start fails is in \<open>failures\<close>, and a
  service container that was created and started is in \<open>services\<close>.
  \<^verbatim>\<open>createBuildVolume\<close> registers the container of the project's volume in
  \<open>caches\<close> when it is not a named one (the strategy is not fetch, or the cache is
  disabled). A named cache container that \<^verbatim>\<open>addCacheVolume\<close> creates is in
  \<open>failures\<close> when this fails; when it succeeds the ID is in \<open>volumesFrom\<close>, and
  the four registries are what they were: \<^verbatim>\<open>addCacheVolume\<close> adds it to none of
  them. \<^verbatim>\<open>Cleanup\<close> on a connected executor issues one removal for every entry of
  \<open>failures\<close>, \<open>services\<close>, \<open>caches\<close> and \<open>builds\<close>.
\<close>

theorem created_containers_registered:
  "(createCacheVolume fuel e containerName containerPath s = Some ((cid, oerr), s')
      \<longrightarrow> set (created s') \<subseteq> set (created s)
            \<union> (case oerr of None \<Rightarrow> {cid} | Some err \<Rightarrow> set (failures s')))
   \<and> (createContainer e containerType imageName cmd s = (Inl err, s')
      \<longrightarrow> set (created s') \<subseteq> set (created s) \<union> set (failures s'))
   \<and> (createService e service version img s = (Inl err, s') \<and> ends_with_start (calls s')
      \<longrightarrow> set (created s') \<subseteq> set (created s) \<union> set (failures s'))
   \<and> (createFromServiceDescription e description linksMap s = (None, linksMap', s')
      \<longrightarrow> set (created s') \<subseteq> set (created s) \<union> ID ` set (services s'))
   \<and> (createBuildVolume fuel e s = Some (oerr, s')
       \<and> \<not> (Build_GitStrategy (build e) = GitFetch \<and> \<not> Docker_DisableCache (Config_Docker e))
      \<longrightarrow> set (created s') \<subseteq> set (created s) \<union> set (failures s') \<union> set (caches s'))
   \<and> (addCacheVolume fuel e containerPath s = Some (oerr, s')
      \<longrightarrow> set (created s') \<subseteq> set (created s)
            \<union> (case oerr of None \<Rightarrow> set (volumesFrom s') | Some err \<Rightarrow> set (failures s'))
          \<and> (oerr = None \<longrightarrow> registered s' = registered s))
   \<and> (client s \<longrightarrow> removes (calls (snd (Cleanup e s))) = removes (calls s) @ registered s)"
proof (intro conjI impI)
  assume "createCacheVolume fuel e containerName containerPath s = Some ((cid, oerr), s')"
  from createCacheVolume_created[OF this]
  show "set (created s') \<subseteq> set (created s)
          \<union> (case oerr of None \<Rightarrow> {cid} | Some err \<Rightarrow> set (failures s'))" by simp
next
  assume "createContainer e containerType imageName cmd s = (Inl err, s')"
  then show "set (created s') \<subseteq> set (created s) \<union> set (failures s')"
    by (rule createContainer_created)
next
  assume "createService e service version img s = (Inl err, s') \<and> ends_with_start (calls s')"
  then show "set (created s') \<subseteq> set (created s) \<union> set (failures s')"
    using createService_start_failed by blast
next
  assume "createFromServiceDescription e description linksMap s = (None, linksMap', s')"
  from createFromServiceDescription_created[OF this]
  show "set (created s') \<subseteq> set (created s) \<union> ID ` set (services s')" by simp
next
  assume "createBuildVolume fuel e s = Some (oerr, s')
          \<and> \<not> (Build_GitStrategy (build e) = GitFetch \<and> \<not> Docker_DisableCache (Config_Docker e))"
  then show "set (created s') \<subseteq> set (created s) \<union> set (failures s') \<union> set (caches s')"
    using createBuildVolume_created by blast
next
  assume a: "addCacheVolume fuel e containerPath s = Some (oerr, s')"
  from addCacheVolume_created[OF a]
  show "set (created s') \<subseteq> set (created s)
          \<union> (case oerr of None \<Rightarrow> set (volumesFrom s') | Some err \<Rightarrow> set (failures s'))"
    by simp
  assume "oerr = None"
  with a show "registered s' = registered s" using addCacheVolume_registered by blast
next
  assume "client s"
  then show "removes (calls (snd (Cleanup e s))) = removes (calls s) @ registered s"
    by (rule Cleanup_removes)
qed

text \<open>
  Instances, on a daemon that creates containers and fails to start them.
  \<open>start_failed\<close> is the executor after \<^verbatim>\<open>createCacheVolume\<close> for a container
  \<^verbatim>\<open>tmp\<close>, and \<open>service_start_failed\<close> the executor after \<^verbatim>\<open>createService\<close> for
  the service \<^verbatim>\<open>postgres\<close>: the created ID is in \<open>failures\<close> each time, and
  \<^verbatim>\<open>Cleanup\<close> removes it.
\<close>

definition start_fails_daemon :: Client where
  "start_fails_daemon = ok_daemon\<lparr>ContainerStart := (\<lambda>h cid. Some (ClientError False ''cannot start''))\<rparr>"

definition start_failed :: executor where
  "start_failed =
     (case createCacheVolume 0 (example_env start_fails_daemon) ''tmp'' ''/cache'' connected_executor of
        Some (r, s') \<Rightarrow> s'
      | None \<Rightarrow> connected_executor)"

definition service_start_failed :: executor where
  "service_start_failed =
     snd (createService (example_env start_fails_daemon) ''postgres'' ''9.6'' ''postgres:9.6''
            connected_executor)"

lemma start_failed_result:
  "map_option fst (createCacheVolume 0 (example_env start_fails_daemon) ''tmp'' ''/cache'' connected_executor)
   = Some ([], Some (ClientError False ''cannot start''))"
  by code_simp

lemma service_start_failed_result:
  "fst (createService (example_env start_fails_daemon) ''postgres'' ''9.6'' ''postgres:9.6''
          connected_executor) = Inl (ClientError False ''cannot start'')"
  by code_simp

theorem created_containers_registered_witness:
  "created start_failed = [''new-tmp''] \<and> failures start_failed = [''new-tmp'']
   \<and> set (created start_failed) \<subseteq> set (created connected_executor) \<union> set (failures start_failed)
   \<and> removes (calls (snd (Cleanup (example_env start_fails_daemon) start_failed))) = [''new-tmp'']
   \<and> created service_start_failed = [''new-proj-postgres'']
   \<and> failures service_start_failed = [''new-proj-postgres'']
   \<and> set (created service_start_failed)
       \<subseteq> set (created connected_executor) \<union> set (failures service_start_failed)"
proof -
  have c: "created start_failed = [''new-tmp'']" by code_simp
  have f: "failures start_failed = [''new-tmp'']" by code_simp
  have cl: "client start_failed" by code_simp
  have rm: "removes (calls start_failed) = []" by code_simp
  have rg: "registered start_failed = [''new-tmp'']" by code_simp
  have eq: "createCacheVolume 0 (example_env start_fails_daemon) ''tmp'' ''/cache'' connected_executor
            = Some (([], Some (ClientError False ''cannot start'')), start_failed)"
    using start_failed_result
    by (auto simp: start_failed_def split: option.splits)
  from created_containers_registered
         [where fuel = 0 and e = "example_env start_fails_daemon" and containerName = "''tmp''"
            and containerPath = "''/cache''" and s = connected_executor and cid = "[]"
            and oerr = "Some (ClientError False ''cannot start'')" and s' = start_failed]
       eq
  have sub: "set (created start_failed) \<subseteq> set (created connected_executor) \<union> set (failures start_failed)"
    by simp
  from created_containers_registered
         [where e = "example_env start_fails_daemon" and s = start_failed]
       cl rm rg
  have cu: "removes (calls (snd (Cleanup (example_env start_fails_daemon) start_failed))) = [''new-tmp'']"
    by simp
  have sc: "created service_start_failed = [''new-proj-postgres'']" by code_simp
  have sf: "failures service_start_failed = [''new-proj-postgres'']" by code_simp
  have se: "ends_with_start (calls service_start_failed)" by code_simp
  have seq: "createService (example_env start_fails_daemon) ''postgres'' ''9.6'' ''postgres:9.6''
               connected_executor = (Inl (ClientError False ''cannot start''), service_start_failed)"
    using service_start_failed_result by (simp add: service_start_failed_def prod_eq_iff)
  from created_containers_registered
         [where e = "example_env start_fails_daemon" and service = "''postgres''"
            and version = "''9.6''" and img = "''postgres:9.6''" and s = connected_executor
            and err = "ClientError False ''cannot start''" and s' = service_start_failed]
       seq se
  have ssub: "set (created service_start_failed)
              \<subseteq> set (created connected_executor) \<union> set (failures service_start_failed)"
    by simp
  from c f sub cu sc sf ssub show ?thesis by simp
qed

text \<open>
  Against C6 as the specification states it (every ID a create returned is in one of
  the four registries when \<^verbatim>\<open>Cleanup\<close> runs): for the volume \<^verbatim>\<open>/cache\<close> and a
  daemon without a cache container, \<^verbatim>\<open>addCacheVolume\<close> creates one and succeeds;
  its ID is in \<open>volumesFrom\<close>, no registry holds it, and \<^verbatim>\<open>Cleanup\<close> removes
  nothing.
\<close>

theorem named_cache_container_not_registered:
  "map_option (\<lambda>r. (fst r, created (snd r), registered (snd r), volumesFrom (snd r),
                     removes (calls (snd (Cleanup (example_env fresh_daemon) (snd r))))))
     (addCacheVolume 1 (example_env fresh_daemon) ''/cache'' connected_executor)
   = Some (None, [''new-proj-cache-3c3f060a0374fc8bc39395164f415a70''], [],
           [''new-proj-cache-3c3f060a0374fc8bc39395164f415a70''], [])"
  by code_simp

text \<open>
  \<^verbatim>\<open>createService\<close> is left out of the statement above where its create call
  returns an ID together with an error: unlike \<^verbatim>\<open>createCacheVolume\<close> and
  \<^verbatim>\<open>createContainer\<close> it returns the error and does not append the ID to
  \<open>failures\<close>.
\<close>

definition half_created_daemon :: Client where
  "half_created_daemon = ok_daemon\<lparr>ContainerCreate :=
      (\<lambda>h config hostConfig name. (''half'', Some (ClientError False ''no space left'')))\<rparr>"

lemma createService_partial_create_unregistered:
  "(case createService (example_env half_created_daemon) ''postgres'' ''9.6'' ''postgres:9.6''
           connected_executor of
      (r, s') \<Rightarrow> (r, created s', registered s'))
   = (Inl (ClientError False ''no space left''), [''half''], [])"
  by code_simp

end
